theory Spec2Isabelle
  imports Main "HOL-Library.Word"
begin

section \<open>Configuration\<close>

text \<open>
  \<^verbatim>\<open>http.go\<close> reads a package-level \<^verbatim>\<open>flags\<close> value whose struct is declared in
  another file of the repository. The record below has one field for every path that
  \<^verbatim>\<open>initHTTP\<close> reads: \<^verbatim>\<open>flags.Debug\<close>, \<^verbatim>\<open>flags.HTTP.Bind\<close>, \<^verbatim>\<open>flags.HTTP.Proxy\<close>,
  \<^verbatim>\<open>flags.HTTP.Throttle\<close>, \<^verbatim>\<open>flags.HTTP.CORS\<close>, \<^verbatim>\<open>flags.HTTP.Limit\<close> and
  \<^verbatim>\<open>flags.HTTP.TLS.{Use,Cert,Key}\<close>. \<^verbatim>\<open>Throttle\<close> is passed where chi wants an \<^verbatim>\<open>int\<close>
  and \<^verbatim>\<open>Limit\<close> is converted with \<^verbatim>\<open>uint64(...)\<close>: both are Go \<^verbatim>\<open>int\<close>s, 64-bit
  two's complement words here. A nil slice and an empty slice are both \<open>[]\<close>.
\<close>

record flags =
  Debug :: bool
  HTTP_Bind :: string
  HTTP_Proxy :: bool
  HTTP_Throttle :: "64 word"
  HTTP_CORS :: "string list"
  HTTP_Limit :: "64 word"
  HTTP_TLS_Use :: bool
  HTTP_TLS_Cert :: string
  HTTP_TLS_Key :: string

text \<open>
  Modelled from the spec: the declaration of the flags struct is not in \<^verbatim>\<open>http.go\<close>.
  Section 6 of the specification lists, next to the settings above, a window interval
  and a cleanup tick interval in the configuration surface. They are carried as an
  extension of the record; every definition below takes any extension of \<open>flags\<close>, so
  it can be asked what the code does with them.
\<close>

record configuration = flags +
  window_interval :: nat
  cleanup_tick :: nat

section \<open>Requests and response writers\<close>

datatype http_method = GET | HEAD | POST | PUT | PATCH | DELETE | OPTIONS | CONNECT | TRACE

type_synonym header = "(string \<times> string) list"

text \<open>\<^verbatim>\<open>Header.Get\<close> returns the empty string for an absent key, \<^verbatim>\<open>Header.Set\<close> replaces.\<close>

definition hdr_Get :: "header \<Rightarrow> string \<Rightarrow> string" where
  "hdr_Get h k = (case map_of h k of None \<Rightarrow> [] | Some v \<Rightarrow> v)"

definition hdr_Set :: "string \<Rightarrow> string \<Rightarrow> header \<Rightarrow> header" where
  "hdr_Set k v h = (k, v) # filter (\<lambda>p. fst p \<noteq> k) h"

definition hdr_Del :: "string \<Rightarrow> header \<Rightarrow> header" where
  "hdr_Del k h = filter (\<lambda>p. fst p \<noteq> k) h"

text \<open>
  \<open>URL_Path\<close> is \<^verbatim>\<open>r.URL.Path\<close>, the decoded path. \<open>URL_RawPath\<close> is \<^verbatim>\<open>r.URL.RawPath\<close>, the
  path as it was sent, which \<^verbatim>\<open>net/url\<close> sets only when the path was sent with escapes
  that its own encoding of \<open>URL_Path\<close> would not produce (\<^verbatim>\<open>/%61pi/ping\<close>, \<^verbatim>\<open>/api/a%2Fb\<close>),
  and leaves empty otherwise. \<open>RoutePath\<close> is chi's routing path in the request context
  (empty: not set).
\<close>

record request =
  Method :: http_method
  URL_Path :: string
  URL_RawPath :: string
  RoutePath :: string
  RemoteAddr :: string
  Header :: header

text \<open>
  An \<^verbatim>\<open>http.ResponseWriter\<close>: the header map, the status line once written
  (\<open>0\<close>: not yet written) and the body written so far. After the status line is out,
  later changes of the header map do not reach the client, and a second
  \<^verbatim>\<open>WriteHeader\<close> is ignored.
\<close>

record writer =
  wheader :: header
  wstatus :: nat
  wbody :: string

definition new_writer :: writer where
  "new_writer = \<lparr>wheader = [], wstatus = 0, wbody = []\<rparr>"

definition Header_Set :: "string \<Rightarrow> string \<Rightarrow> writer \<Rightarrow> writer" where
  "Header_Set k v w = (if wstatus w \<noteq> 0 then w else w\<lparr>wheader := hdr_Set k v (wheader w)\<rparr>)"

definition WriteHeader :: "nat \<Rightarrow> writer \<Rightarrow> writer" where
  "WriteHeader code w = (if wstatus w \<noteq> 0 then w else w\<lparr>wstatus := code\<rparr>)"

text \<open>\<^verbatim>\<open>Write\<close> sends status 200 first when no status was written.\<close>

definition Write :: "string \<Rightarrow> writer \<Rightarrow> writer" where
  "Write b w = (let w' = WriteHeader 200 w in w'\<lparr>wbody := wbody w' @ b\<rparr>)"

section \<open>The rate limiter value\<close>

text \<open>
  \<^verbatim>\<open>httprl.RateLimiter\<close> as \<^verbatim>\<open>initHTTP\<close> fills it in. \<^verbatim>\<open>Backend\<close> is the package's one
  \<^verbatim>\<open>mapLimiter\<close>, kept in the world state below; \<^verbatim>\<open>LimitExceededFunc\<close> only logs.
\<close>

datatype key_maker = DefaultKeyMaker

record rate_limiter =
  Limit :: "64 word"
  Interval :: "32 word"
  KeyMaker :: key_maker

definition limiter :: "'a flags_scheme \<Rightarrow> rate_limiter" where
  "limiter fl = \<lparr>Limit = HTTP_Limit fl, Interval = 60 * 60, KeyMaker = DefaultKeyMaker\<rparr>"

section \<open>The router that initHTTP builds\<close>

datatype middleware =
    RealIP
  | Recoverer bool
  | Logger
  | StripSlashes
  | Compress nat
  | dbDetailsMiddleware
  | ThrottleBacklog "64 word" "64 word" nat
  | CorsHandler "string list"
  | NoCache
  | LimiterHandle rate_limiter
  | rateHeaderMiddleware

text \<open>
  A handler that is not in \<^verbatim>\<open>http.go\<close> (the routes of \<^verbatim>\<open>registerAPI\<close>, chi's profiler,
  the file server) is a parameter: a function from the request to what it does. It
  panics before it has written anything (\<open>HPanic\<close>), or it sets header fields, writes a
  status and a body and returns (\<open>HResponse\<close>), or it does the same and then panics
  (\<open>HPanicAfter\<close>).
\<close>

datatype handler_result =
    HPanic
  | HResponse nat header string
  | HPanicAfter nat header string

datatype handler =
    Profiler
  | distHandler
  | catchAll
  | pingHandler
  | apiHandler "request \<Rightarrow> handler_result"

text \<open>
  A route: the method it answers (\<open>None\<close>: every method, as \<^verbatim>\<open>Mount\<close> registers), the
  pattern, the inline middlewares of \<^verbatim>\<open>With\<close>, and the endpoint.
\<close>

record route =
  rmethod :: "http_method option"
  rpattern :: string
  rchain :: "middleware list"
  rhandler :: handler

record mux =
  middlewares :: "middleware list"
  routes :: "route list"

definition NewRouter :: mux where
  "NewRouter = \<lparr>middlewares = [], routes = []\<rparr>"

definition Use :: "middleware \<Rightarrow> mux \<Rightarrow> mux" where
  "Use m r = r\<lparr>middlewares := middlewares r @ [m]\<rparr>"

definition handle :: "http_method option \<Rightarrow> middleware list \<Rightarrow> string \<Rightarrow> handler \<Rightarrow> mux \<Rightarrow> mux" where
  "handle m ch p h r =
     r\<lparr>routes := routes r @ [\<lparr>rmethod = m, rpattern = p, rchain = ch, rhandler = h\<rparr>]\<rparr>"

text \<open>
  chi's \<^verbatim>\<open>Mount(pattern, h)\<close> registers \<open>h\<close> for every method on \<^verbatim>\<open>pattern\<close>,
  \<^verbatim>\<open>pattern/\<close> and \<^verbatim>\<open>pattern/*\<close>.
\<close>

definition Mount :: "string \<Rightarrow> handler \<Rightarrow> mux \<Rightarrow> mux" where
  "Mount p h r = handle None [] (p @ ''/*'') h (handle None [] (p @ ''/'') h (handle None [] p h r))"

text \<open>
  \<^verbatim>\<open>registerAPI\<close> is not in \<^verbatim>\<open>http.go\<close>: the routes it registers on the router it is
  given are a parameter, each a method, a pattern and a handler.
  \<^verbatim>\<open>r.With(ms...).Group(registerAPI)\<close> registers each of them behind \<open>ms\<close>.
\<close>

type_synonym api_route = "http_method \<times> string \<times> (request \<Rightarrow> handler_result)"

definition Group :: "middleware list \<Rightarrow> api_route list \<Rightarrow> mux \<Rightarrow> mux" where
  "Group ch api r =
     foldl (\<lambda>r' (m, p, h). handle (Some m) ch p (apiHandler h) r') r api"

definition corsOrigins :: "'a flags_scheme \<Rightarrow> string list" where
  "corsOrigins fl = (if HTTP_CORS fl = [] then [''*''] else HTTP_CORS fl)"

text \<open>The global middleware stack, lines 41 to 54, in the order of the \<^verbatim>\<open>Use\<close> calls.\<close>

definition useStack :: "'a flags_scheme \<Rightarrow> mux \<Rightarrow> mux" where
  "useStack fl r0 =
    (let r1 = (if HTTP_Proxy fl then Use RealIP r0 else r0);
         r2 = Use (Recoverer (Debug fl)) r1;
         r3 = Use Logger r2;
         r4 = Use StripSlashes r3;
         r5 = Use (Compress 9) r4;
         r6 = Use dbDetailsMiddleware r5
     in if 0 <s HTTP_Throttle fl
        then Use (ThrottleBacklog (HTTP_Throttle fl) (HTTP_Throttle fl * 2) 30) r6
        else r6)"

text \<open>The routes, lines 56 to 124, in the order they are registered.\<close>

definition apiChain :: "'a flags_scheme \<Rightarrow> middleware list" where
  "apiChain fl =
    (if 0 <s HTTP_Limit fl
     then [CorsHandler (corsOrigins fl), NoCache, LimiterHandle (limiter fl)]
     else [CorsHandler (corsOrigins fl), NoCache])"

definition pingChain :: "'a flags_scheme \<Rightarrow> middleware list" where
  "pingChain fl = [CorsHandler (corsOrigins fl), NoCache, rateHeaderMiddleware]"

definition router :: "'a flags_scheme \<Rightarrow> api_route list \<Rightarrow> mux" where
  "router fl api =
    (let r0 = useStack fl NewRouter;
         r1 = (if Debug fl then Mount ''/debug'' Profiler r0 else r0);
         r2 = Mount ''/dist'' distHandler r1;
         r3 = handle (Some GET) [] ''/*'' catchAll r2;
         r4 = Group (apiChain fl) api r3;
         r5 = handle (Some GET) (pingChain fl) ''/api/ping'' pingHandler r4
     in handle (Some HEAD) (pingChain fl) ''/api/ping'' pingHandler r5)"

section \<open>Routing\<close>

text \<open>
  chi keeps the routes in a radix tree and searches it depth first, trying at every
  branch the static child first, then a parameter, then the catch-all, and going on to
  the next branch when a node has no endpoint for the request's method; registering a
  pattern again for a method replaces the endpoint. The model reads a pattern as its
  \<open>/\<close>-separated pieces: \<^verbatim>\<open>*\<close> is the catch-all, \<^verbatim>\<open>{name}\<close> a parameter, anything else
  static text. The route found is the best one among those that match path and method,
  pieces compared from the left with static before parameter before catch-all, and the
  later registration among equal patterns.
\<close>

datatype seg = Lit string | Par | Wild

fun split_on :: "char \<Rightarrow> string \<Rightarrow> string list" where
  "split_on c [] = [[]]"
| "split_on c (x # xs) =
     (if x = c then [] # split_on c xs
      else (case split_on c xs of [] \<Rightarrow> [[x]] | y # ys \<Rightarrow> (x # y) # ys))"

definition seg_of :: "string \<Rightarrow> seg" where
  "seg_of p =
     (if p = ''*'' then Wild
      else if p \<noteq> [] \<and> hd p = CHR ''{'' \<and> last p = CHR ''}'' then Par
      else Lit p)"

definition parse_pattern :: "string \<Rightarrow> seg list" where
  "parse_pattern p = map seg_of (split_on CHR ''/'' p)"

fun pmatch :: "seg list \<Rightarrow> string list \<Rightarrow> bool" where
  "pmatch [] [] = True"
| "pmatch (Wild # ps) (x # xs) = True"
| "pmatch (Lit s # ps) (x # xs) = (s = x \<and> pmatch ps xs)"
| "pmatch (Par # ps) (x # xs) = (x \<noteq> [] \<and> pmatch ps xs)"
| "pmatch _ _ = False"

fun seg_rank :: "seg \<Rightarrow> nat" where
  "seg_rank (Lit _) = 0"
| "seg_rank Par = 1"
| "seg_rank Wild = 2"

fun better :: "seg list \<Rightarrow> seg list \<Rightarrow> bool" where
  "better (a # as) (b # bs) =
     (seg_rank a < seg_rank b \<or> (seg_rank a = seg_rank b \<and> better as bs))"
| "better _ _ = False"

definition path_matches :: "string \<Rightarrow> route \<Rightarrow> bool" where
  "path_matches path rt = pmatch (parse_pattern (rpattern rt)) (split_on CHR ''/'' path)"

definition method_matches :: "http_method \<Rightarrow> route \<Rightarrow> bool" where
  "method_matches m rt = (case rmethod rt of None \<Rightarrow> True | Some m' \<Rightarrow> m' = m)"

fun pick :: "route option \<Rightarrow> route list \<Rightarrow> route option" where
  "pick acc [] = acc"
| "pick None (r # rs) = pick (Some r) rs"
| "pick (Some a) (r # rs) =
     pick (Some (if better (parse_pattern (rpattern a)) (parse_pattern (rpattern r)) then a else r)) rs"

datatype routing = Found route | MethodNotAllowed | NotFound

definition FindRoute :: "route list \<Rightarrow> http_method \<Rightarrow> string \<Rightarrow> routing" where
  "FindRoute rts m path =
     (case pick None (filter (\<lambda>rt. method_matches m rt \<and> path_matches path rt) rts) of
        Some rt \<Rightarrow> Found rt
      | None \<Rightarrow> if list_ex (path_matches path) rts then MethodNotAllowed else NotFound)"

section \<open>What the gateway does not own\<close>

text \<open>
  Everything a request meets that is neither in \<^verbatim>\<open>http.go\<close> nor fixed by the libraries'
  control flow is an input: the routes of \<^verbatim>\<open>registerAPI\<close>, the files embedded under
  \<^verbatim>\<open>public/dist\<close> (\<^verbatim>\<open>publicDist\<close>, path to content), the header fields that
  \<^verbatim>\<open>dbDetailsMiddleware\<close> sets before it calls the next handler (it is declared in
  another file; the model takes it to annotate the response and pass the request on),
  the address chi's \<^verbatim>\<open>RealIP\<close> reads from the forwarding headers (empty: none), the
  header fields the CORS library adds to a preflight and to an actual request, and the
  answers of \<^verbatim>\<open>http.FileServer\<close> and of chi's profiler.
\<close>

record env =
  registerAPI :: "api_route list"
  publicDist :: "string \<Rightarrow> string option"
  dbDetails :: "request \<Rightarrow> header"
  realIP :: "request \<Rightarrow> string"
  corsPreflight :: "string list \<Rightarrow> request \<Rightarrow> header"
  corsActual :: "string list \<Rightarrow> request \<Rightarrow> header"
  fileServer :: "request \<Rightarrow> handler_result"
  profiler :: "request \<Rightarrow> handler_result"

section \<open>The counter backend\<close>

text \<open>
  Modelled from the spec: \<^verbatim>\<open>NewMapLimiter\<close> and the type it returns are not in
  \<^verbatim>\<open>http.go\<close>. Sections 3 and 4.2 of the specification give the backend: per key a
  count and the start of the window; \<open>increment\<close> makes a fresh entry with count 1 when
  the key is absent or its window has expired (\<open>now - windowStart \<ge> interval\<close>), and
  adds one otherwise; it returns the count after the increment and the window start.
  \<open>peek\<close> is the read-only accessor of section 9: the live count of a key, 0 without a
  live window. \<open>tick\<close> is the constructor's argument and \<open>running\<close> says whether the
  background cleanup cycle was started and not stopped.
\<close>

record counter_entry =
  count :: "64 word"
  windowStart :: nat

record map_limiter =
  tick :: nat
  running :: bool
  entries :: "string \<Rightarrow> counter_entry option"

definition NewMapLimiter :: "nat \<Rightarrow> map_limiter" where
  "NewMapLimiter n = \<lparr>tick = n, running = False, entries = (\<lambda>k. None)\<rparr>"

definition mapLimiter :: map_limiter where
  "mapLimiter = NewMapLimiter 10"

definition Start :: "map_limiter \<Rightarrow> map_limiter" where
  "Start b = b\<lparr>running := True\<rparr>"

definition Stop :: "map_limiter \<Rightarrow> map_limiter" where
  "Stop b = b\<lparr>running := False\<rparr>"

definition live :: "nat \<Rightarrow> nat \<Rightarrow> counter_entry \<Rightarrow> bool" where
  "live now interval en = (now - windowStart en < interval)"

definition increment :: "string \<Rightarrow> nat \<Rightarrow> nat \<Rightarrow> map_limiter \<Rightarrow> counter_entry \<times> map_limiter" where
  "increment key interval now b =
     (let en = (case entries b key of
                  None \<Rightarrow> \<lparr>count = 1, windowStart = now\<rparr>
                | Some old \<Rightarrow>
                    if live now interval old then old\<lparr>count := count old + 1\<rparr>
                    else \<lparr>count = 1, windowStart = now\<rparr>)
      in (en, b\<lparr>entries := (entries b)(key \<mapsto> en)\<rparr>))"

definition peek :: "string \<Rightarrow> nat \<Rightarrow> nat \<Rightarrow> map_limiter \<Rightarrow> counter_entry" where
  "peek key interval now b =
     (case entries b key of
        None \<Rightarrow> \<lparr>count = 0, windowStart = now\<rparr>
      | Some old \<Rightarrow> if live now interval old then old else \<lparr>count = 0, windowStart = now\<rparr>)"

text \<open>The state a request runs in: the backend and the clock (seconds).\<close>

record world =
  backend :: map_limiter
  clock :: nat

section \<open>Library functions the handlers call\<close>

text \<open>\<^verbatim>\<open>strings.HasPrefix\<close> and \<^verbatim>\<open>strings.TrimPrefix\<close>.\<close>

definition HasPrefix :: "string \<Rightarrow> string \<Rightarrow> bool" where
  "HasPrefix s pre = (take (length pre) s = pre)"

definition TrimPrefix :: "string \<Rightarrow> string \<Rightarrow> string" where
  "TrimPrefix s pre = (if HasPrefix s pre then drop (length pre) s else s)"

fun index_of :: "char \<Rightarrow> string \<Rightarrow> nat option" where
  "index_of c [] = None"
| "index_of c (x # xs) = (if x = c then Some 0 else map_option Suc (index_of c xs))"

definition last_index :: "char \<Rightarrow> string \<Rightarrow> nat option" where
  "last_index c s = map_option (\<lambda>i. length s - 1 - i) (index_of c (rev s))"

text \<open>
  \<^verbatim>\<open>net.SplitHostPort\<close>: the port starts after the last colon; a host in brackets ends
  at the first \<^verbatim>\<open>]\<close>, which must stand just before that colon; any other host has no
  colon, and no bracket is left over. \<open>None\<close> is the error return.
\<close>

definition SplitHostPort :: "string \<Rightarrow> (string \<times> string) option" where
  "SplitHostPort hostport =
     (case last_index CHR '':'' hostport of
        None \<Rightarrow> None
      | Some i \<Rightarrow>
          if hd hostport = CHR ''[''
          then (case index_of CHR '']'' hostport of
                  None \<Rightarrow> None
                | Some e \<Rightarrow>
                    if e + 1 \<noteq> i then None
                    else if index_of CHR ''['' (drop 1 hostport) \<noteq> None then None
                    else if index_of CHR '']'' (drop (e + 1) hostport) \<noteq> None then None
                    else Some (take (e - 1) (drop 1 hostport), drop (i + 1) hostport))
          else if index_of CHR '':'' (take i hostport) \<noteq> None then None
          else if index_of CHR ''['' hostport \<noteq> None then None
          else if index_of CHR '']'' hostport \<noteq> None then None
          else Some (take i hostport, drop (i + 1) hostport))"

text \<open>
  \<^verbatim>\<open>httprl.DefaultKeyMaker\<close>: the host of \<^verbatim>\<open>r.RemoteAddr\<close>, the whole of it when it does
  not split.
\<close>

fun make_key :: "key_maker \<Rightarrow> request \<Rightarrow> string" where
  "make_key DefaultKeyMaker r =
     (case SplitHostPort (RemoteAddr r) of None \<Rightarrow> RemoteAddr r | Some (host, port) \<Rightarrow> host)"

fun decimal :: "nat \<Rightarrow> string" where
  "decimal n =
     (if n < 10 then [char_of (48 + n)] else decimal (n div 10) @ [char_of (48 + n mod 10)])"

declare decimal.simps [simp del]

definition set_headers :: "header \<Rightarrow> writer \<Rightarrow> writer" where
  "set_headers hs w = fold (\<lambda>(k, v). Header_Set k v) hs w"

definition newline :: string where
  "newline = [CHR 0x0A]"

text \<open>\<^verbatim>\<open>http.Error\<close> and \<^verbatim>\<open>http.NotFound\<close>.\<close>

definition http_Error :: "string \<Rightarrow> nat \<Rightarrow> writer \<Rightarrow> writer" where
  "http_Error msg code w =
     Write (msg @ newline)
       (WriteHeader code
         (Header_Set ''X-Content-Type-Options'' ''nosniff''
           (Header_Set ''Content-Type'' ''text/plain; charset=utf-8'' w)))"

definition http_NotFound :: "writer \<Rightarrow> writer" where
  "http_NotFound w = http_Error ''404 page not found'' 404 w"

text \<open>
  \<^verbatim>\<open>json.NewEncoder(w).Encode(v)\<close> for a \<^verbatim>\<open>map[string]bool\<close>: the members in key order,
  no white space, and a newline after the value. The keys here need no escaping.
\<close>

definition dquote :: char where
  "dquote = CHR 0x22"

fun json_members :: "(string \<times> bool) list \<Rightarrow> string" where
  "json_members [] = []"
| "json_members [(k, v)] = [dquote] @ k @ [dquote] @ '':'' @ (if v then ''true'' else ''false'')"
| "json_members ((k, v) # kvs) =
     [dquote] @ k @ [dquote] @ '':'' @ (if v then ''true'' else ''false'') @ '','' @ json_members kvs"

definition json_Encode :: "(string \<times> bool) list \<Rightarrow> string" where
  "json_Encode m = ''{'' @ json_members m @ ''}'' @ newline"

definition apiPong :: "(string \<times> bool) list" where
  "apiPong = [(''pong'', True)]"

section \<open>Handlers and middlewares\<close>

text \<open>
  A handler runs on the world, the response writer and the request. It returns, or it
  panics; either way the writer is left as the handler last saw it.
\<close>

datatype result = Panicked world writer | Returned world writer

type_synonym serve_fn = "world \<Rightarrow> writer \<Rightarrow> request \<Rightarrow> result"

definition apply_result :: "handler_result \<Rightarrow> world \<Rightarrow> writer \<Rightarrow> result" where
  "apply_result hr wd w =
     (case hr of
        HPanic \<Rightarrow> Panicked wd w
      | HResponse st hs b \<Rightarrow> Returned wd (Write b (WriteHeader st (set_headers hs w)))
      | HPanicAfter st hs b \<Rightarrow> Panicked wd (Write b (WriteHeader st (set_headers hs w))))"

text \<open>Lines 163 to 173.\<close>

definition pingHandler_fn :: serve_fn where
  "pingHandler_fn wd w r =
     (if Method r = HEAD then Returned wd (WriteHeader 200 w)
      else Returned wd
             (Write (json_Encode apiPong)
               (WriteHeader 200 (Header_Set ''Content-Type'' ''application/json'' w))))"

text \<open>Lines 66 to 77.\<close>

definition catchAll_fn :: "env \<Rightarrow> serve_fn" where
  "catchAll_fn e wd w r =
     (if HasPrefix (URL_Path r) ''/api'' then Returned wd (http_NotFound w)
      else (case publicDist e ''public/dist/index.html'' of
              None \<Rightarrow> Panicked wd w
            | Some b \<Rightarrow> Returned wd (Write b w)))"

text \<open>
  Lines 60 to 64: \<^verbatim>\<open>http.StripPrefix\<close> answers 404 unless the path, and the raw path when
  it is set, starts with the prefix, and otherwise hands the rest of both to the handler
  inside, which sets two header fields and calls the file server.
\<close>

definition distHandler_fn :: "env \<Rightarrow> serve_fn" where
  "distHandler_fn e wd w r =
     (if HasPrefix (URL_Path r) ''/dist/''
          \<and> (URL_RawPath r = [] \<or> HasPrefix (URL_RawPath r) ''/dist/'')
      then apply_result
             (fileServer e (r\<lparr>URL_Path := TrimPrefix (URL_Path r) ''/dist/'',
                               URL_RawPath := TrimPrefix (URL_RawPath r) ''/dist/''\<rparr>)) wd
             (Header_Set ''Cache-Control'' ''public, max-age=7776000''
               (Header_Set ''Vary'' ''Accept-Encoding'' w))
      else Returned wd (http_NotFound w))"

fun run_handler :: "env \<Rightarrow> handler \<Rightarrow> serve_fn" where
  "run_handler e pingHandler wd w r = pingHandler_fn wd w r"
| "run_handler e catchAll wd w r = catchAll_fn e wd w r"
| "run_handler e distHandler wd w r = distHandler_fn e wd w r"
| "run_handler e Profiler wd w r = apply_result (profiler e r) wd w"
| "run_handler e (apiHandler h) wd w r = apply_result (h r) wd w"

text \<open>
  \<^verbatim>\<open>httprl.RateLimiter.Handle\<close>: make the key, hit the backend, set the limit and reset
  fields; above the limit set remaining to 0, answer 429, call \<^verbatim>\<open>LimitExceededFunc\<close>
  (which logs) and do not call the next handler; otherwise set what remains and go on.
\<close>

definition limiter_Handle :: "rate_limiter \<Rightarrow> serve_fn \<Rightarrow> serve_fn" where
  "limiter_Handle rl next wd w r =
     (let (en, b) = increment (make_key (KeyMaker rl) r) (unat (Interval rl)) (clock wd) (backend wd);
          wd' = wd\<lparr>backend := b\<rparr>;
          w1 = Header_Set ''X-Ratelimit-Reset'' (decimal (windowStart en + unat (Interval rl)))
                 (Header_Set ''X-Ratelimit-Limit'' (decimal (unat (Limit rl))) w)
      in if Limit rl < count en
         then Returned wd' (WriteHeader 429 (Header_Set ''X-Ratelimit-Remaining'' ''0'' w1))
         else next wd'
                (Header_Set ''X-Ratelimit-Remaining'' (decimal (unat (Limit rl - count en))) w1) r)"

text \<open>
  Modelled from the spec: \<^verbatim>\<open>rateHeaderMiddleware\<close> is not in \<^verbatim>\<open>http.go\<close>. By section 4.4
  the ping endpoint gets the header fields a limited request would get, "computed
  without counting against quota": the limit, what remains of it
  (\<open>max(0, limit - count)\<close>, section 4.3) and the reset time (\<open>windowStart + interval\<close>),
  read from the backend without an increment; then the next handler runs.
\<close>

definition rateHeader_fn :: "rate_limiter \<Rightarrow> serve_fn \<Rightarrow> serve_fn" where
  "rateHeader_fn rl next wd w r =
     (let en = peek (make_key (KeyMaker rl) r) (unat (Interval rl)) (clock wd) (backend wd);
          remaining = (if count en \<le> Limit rl then Limit rl - count en else 0)
      in next wd
           (Header_Set ''X-Ratelimit-Reset'' (decimal (windowStart en + unat (Interval rl)))
             (Header_Set ''X-Ratelimit-Remaining'' (decimal (unat remaining))
               (Header_Set ''X-Ratelimit-Limit'' (decimal (unat (Limit rl))) w))) r)"

text \<open>chi's \<^verbatim>\<open>NoCache\<close>: the header fields it removes from the request and sets on the response.\<close>

definition etagHeaders :: "string list" where
  "etagHeaders = [''Etag'', ''If-Modified-Since'', ''If-Match'', ''If-None-Match'', ''If-Range'',
     ''If-Unmodified-Since'']"

definition noCacheHeaders :: header where
  "noCacheHeaders =
     [(''Expires'', ''Thu, 01 Jan 1970 00:00:00 UTC''),
      (''Cache-Control'', ''no-cache, no-store, no-transform, must-revalidate, private, max-age=0''),
      (''Pragma'', ''no-cache''),
      (''X-Accel-Expires'', ''0'')]"

text \<open>
  One middleware around the next handler.
  \<^item> \<^verbatim>\<open>RealIP\<close> overwrites \<^verbatim>\<open>RemoteAddr\<close> when the forwarding headers give an address.
  \<^item> The recoverer catches a panic from below and answers 500 (the page it renders is
    not modelled).
  \<^item> \<^verbatim>\<open>StripSlashes\<close> reads the routing path of the context, or \<^verbatim>\<open>r.URL.Path\<close> when that
    is not set, and when it ends in a slash makes it, less the slash, the routing path.
  \<^item> The logger and the compressor pass the request on; the body of the model is the
    representation before content coding.
  \<^item> \<^verbatim>\<open>ThrottleBacklog\<close> admits a request while a token is free. The model serves one
    request at a time, and \<^verbatim>\<open>initHTTP\<close> installs the throttle with at least one token, so
    it admits.
  \<^item> The CORS handler answers a preflight (\<^verbatim>\<open>OPTIONS\<close> with
    \<^verbatim>\<open>Access-Control-Request-Method\<close>) itself with 200 and passes every other request on.
\<close>

definition RealIP_request :: "env \<Rightarrow> request \<Rightarrow> request" where
  "RealIP_request e r = (if realIP e r \<noteq> [] then r\<lparr>RemoteAddr := realIP e r\<rparr> else r)"

definition StripSlashes_request :: "request \<Rightarrow> request" where
  "StripSlashes_request r =
     (let path = (if RoutePath r \<noteq> [] then RoutePath r else URL_Path r)
      in if 1 < length path \<and> last path = CHR ''/'' then r\<lparr>RoutePath := butlast path\<rparr> else r)"

fun apply_mw :: "'a flags_scheme \<Rightarrow> env \<Rightarrow> middleware \<Rightarrow> serve_fn \<Rightarrow> serve_fn" where
  "apply_mw fl e RealIP next wd w r = next wd w (RealIP_request e r)"
| "apply_mw fl e (Recoverer show) next wd w r =
     (case next wd w r of
        Panicked wd' w' \<Rightarrow> Returned wd' (WriteHeader 500 w')
      | Returned wd' w' \<Rightarrow> Returned wd' w')"
| "apply_mw fl e Logger next wd w r = next wd w r"
| "apply_mw fl e StripSlashes next wd w r = next wd w (StripSlashes_request r)"
| "apply_mw fl e (Compress level) next wd w r = next wd w r"
| "apply_mw fl e dbDetailsMiddleware next wd w r = next wd (set_headers (dbDetails e r) w) r"
| "apply_mw fl e (ThrottleBacklog lim backlog timeout) next wd w r = next wd w r"
| "apply_mw fl e (CorsHandler origins) next wd w r =
     (if Method r = OPTIONS \<and> hdr_Get (Header r) ''Access-Control-Request-Method'' \<noteq> []
      then Returned wd (WriteHeader 200 (set_headers (corsPreflight e origins r) w))
      else next wd (set_headers (corsActual e origins r) w) r)"
| "apply_mw fl e NoCache next wd w r =
     next wd (set_headers noCacheHeaders w) (r\<lparr>Header := fold hdr_Del etagHeaders (Header r)\<rparr>)"
| "apply_mw fl e (LimiterHandle rl) next wd w r = limiter_Handle rl next wd w r"
| "apply_mw fl e rateHeaderMiddleware next wd w r = rateHeader_fn (limiter fl) next wd w r"

definition chain :: "'a flags_scheme \<Rightarrow> env \<Rightarrow> middleware list \<Rightarrow> serve_fn \<Rightarrow> serve_fn" where
  "chain fl e ms h = foldr (apply_mw fl e) ms h"

section \<open>Serving a request\<close>

text \<open>
  chi's \<^verbatim>\<open>Mux.routeHTTP\<close> routes on the routing path of the context when a middleware has
  set it, else on \<^verbatim>\<open>r.URL.RawPath\<close> when that is set, else on \<^verbatim>\<open>r.URL.Path\<close>.
\<close>

definition route_path :: "request \<Rightarrow> string" where
  "route_path r =
     (if RoutePath r \<noteq> [] then RoutePath r
      else if URL_RawPath r \<noteq> [] then URL_RawPath r
      else URL_Path r)"

text \<open>
  The router's own handler, below the global stack: find the route and run its inline
  middlewares around its endpoint; chi answers 405 and 404 itself.
\<close>

definition routeHTTP :: "'a flags_scheme \<Rightarrow> env \<Rightarrow> mux \<Rightarrow> serve_fn" where
  "routeHTTP fl e mx wd w r =
     (case FindRoute (routes mx) (Method r) (route_path r) of
        Found rt \<Rightarrow> chain fl e (rchain rt) (run_handler e (rhandler rt)) wd w r
      | MethodNotAllowed \<Rightarrow> Returned wd (Write [] (WriteHeader 405 w))
      | NotFound \<Rightarrow> Returned wd (http_NotFound w))"

definition ServeHTTP :: "'a flags_scheme \<Rightarrow> env \<Rightarrow> mux \<Rightarrow> serve_fn" where
  "ServeHTTP fl e mx = chain fl e (middlewares mx) (routeHTTP fl e mx)"

record response =
  status :: nat
  rheader :: header
  rbody :: string

definition finish :: "writer \<Rightarrow> response" where
  "finish w = \<lparr>status = (if wstatus w = 0 then 200 else wstatus w), rheader = wheader w, rbody = wbody w\<rparr>"

text \<open>
  One request through the server that \<^verbatim>\<open>initHTTP\<close> configures (\<^verbatim>\<open>Handler: r\<close>). A panic
  that reaches \<^verbatim>\<open>net/http\<close> is recovered there and the connection is closed without a
  response: \<open>None\<close>.
\<close>

definition serve :: "'a flags_scheme \<Rightarrow> env \<Rightarrow> world \<Rightarrow> request \<Rightarrow> world \<times> response option" where
  "serve fl e wd r =
     (case ServeHTTP fl e (router fl (registerAPI e)) wd new_writer r of
        Returned wd' w' \<Rightarrow> (wd', Some (finish w'))
      | Panicked wd' w' \<Rightarrow> (wd', None))"

section \<open>The life of the process\<close>

text \<open>
  \<^verbatim>\<open>initHTTP\<close> runs in one goroutine and starts a second one for the listener
  (lines 133 to 153). \<^verbatim>\<open>ListenAndServe\<close> and \<^verbatim>\<open>ListenAndServeTLS\<close> return when binding or
  loading the TLS material fails, when accepting fails, and after \<^verbatim>\<open>Close\<close>, then with
  \<^verbatim>\<open>http.ErrServerClosed\<close>; \<open>None\<close> stands for a nil error, which the code tests for.
\<close>

datatype serve_error = ErrServerClosed | ListenError string

fun error_text :: "serve_error \<Rightarrow> string" where
  "error_text ErrServerClosed = ''http: Server closed''"
| "error_text (ListenError msg) = msg"

text \<open>
  A connection holds a request that is being served, or got its response (\<open>None\<close>:
  closed by \<^verbatim>\<open>net/http\<close> after a panic), or was closed under the request.
\<close>

datatype conn = InFlight request | Completed "response option" | Aborted request

text \<open>
  Where \<^verbatim>\<open>initHTTP\<close> stands: before line 36, blocked on \<^verbatim>\<open><-closer\<close> (line 155), after
  \<^verbatim>\<open>srv.Close()\<close> (line 158), returned. Where the listener goroutine stands: inside
  \<^verbatim>\<open>ListenAndServe\<close> before and after the listener is bound, holding the error it got,
  or ended.
\<close>

datatype main_pc = AtInit | AtCloser | AtReturn | HasReturned

datatype go_pc = NotStarted | Binding | Accepting | Got "serve_error option" | Ended

record process =
  main :: main_pc
  gor :: go_pc
  exit_code :: "nat option"
  conns :: "conn list"
  wld :: world
  stdout :: "string list"

definition new_process :: "nat \<Rightarrow> process" where
  "new_process now =
     \<lparr>main = AtInit, gor = NotStarted, exit_code = None, conns = [],
      wld = \<lparr>backend = mapLimiter, clock = now\<rparr>, stdout = []\<rparr>"

text \<open>
  \<^verbatim>\<open>http.Server.Close\<close> closes the listeners and every connection at once, whatever it
  is doing; it does not wait for a request to finish (that is \<^verbatim>\<open>Shutdown\<close>, which
  \<^verbatim>\<open>http.go\<close> does not call).
\<close>

fun close_conn :: "conn \<Rightarrow> conn" where
  "close_conn (InFlight r) = Aborted r"
| "close_conn c = c"

fun respond_first :: "'a flags_scheme \<Rightarrow> env \<Rightarrow> world \<Rightarrow> conn list \<Rightarrow> (world \<times> conn list) option" where
  "respond_first fl e wd [] = None"
| "respond_first fl e wd (InFlight r # cs) =
     (let (wd', resp) = serve fl e wd r in Some (wd', Completed resp # cs))"
| "respond_first fl e wd (c # cs) =
     (case respond_first fl e wd cs of None \<Rightarrow> None | Some (wd', cs') \<Rightarrow> Some (wd', c # cs'))"

datatype event =
    Init
  | Bound
  | ServeFails string
  | GoroutineResumes
  | Accept request
  | Respond
  | Signal
  | Return

text \<open>
  One step of the process; \<open>None\<close>: the event cannot happen in this state. Nothing
  happens after \<^verbatim>\<open>os.Exit\<close>.
  \<^item> \<open>Init\<close>: lines 36 to 153 of \<^verbatim>\<open>initHTTP\<close>: the router is built, the backend's cycle
    is started, its stop deferred, the listener goroutine started. (\<^verbatim>\<open>fs.Sub\<close> fails only
    on an invalid path, which the constant \<^verbatim>\<open>public/dist\<close> is not, so the panic of line
    38 is not a step. chi's \<^verbatim>\<open>ThrottleBacklog\<close> panics when it is given a negative backlog,
    which \<^verbatim>\<open>Throttle*2\<close> is for a throttle of \<open>2^62\<close> and more; that start-up panic is not
    a step either.)
  \<^item> \<open>Bound\<close>, \<open>ServeFails\<close>: the listener is bound, or \<^verbatim>\<open>ListenAndServe\<close> returns an
    error of its own.
  \<^item> \<open>GoroutineResumes\<close>: lines 139 to 142 and 148 to 151, the test of the error, the
    message and \<^verbatim>\<open>os.Exit(1)\<close>.
  \<^item> \<open>Accept\<close>, \<open>Respond\<close>: a request arrives; the oldest request in flight is served.
  \<^item> \<open>Signal\<close>: \<^verbatim>\<open>closer\<close> delivers; lines 156 to 160, the message and \<^verbatim>\<open>srv.Close()\<close>,
    after which \<^verbatim>\<open>ListenAndServe\<close> returns \<^verbatim>\<open>ErrServerClosed\<close>.
  \<^item> \<open>Return\<close>: \<^verbatim>\<open>initHTTP\<close> returns and the deferred \<^verbatim>\<open>mapLimiter.Stop()\<close> runs.
\<close>

fun step :: "'a flags_scheme \<Rightarrow> env \<Rightarrow> event \<Rightarrow> process \<Rightarrow> process option" where
  "step fl e ev p =
    (if exit_code p \<noteq> None then None
     else case ev of
       Init \<Rightarrow>
         if main p = AtInit
         then Some (p\<lparr>main := AtCloser, gor := Binding,
                      wld := (wld p)\<lparr>backend := Start (backend (wld p))\<rparr>\<rparr>)
         else None
     | Bound \<Rightarrow> if gor p = Binding then Some (p\<lparr>gor := Accepting\<rparr>) else None
     | ServeFails msg \<Rightarrow>
         if gor p = Binding \<or> gor p = Accepting
         then Some (p\<lparr>gor := Got (Some (ListenError msg))\<rparr>)
         else None
     | GoroutineResumes \<Rightarrow>
         (case gor p of
            Got None \<Rightarrow> Some (p\<lparr>gor := Ended\<rparr>)
          | Got (Some err) \<Rightarrow>
              Some (p\<lparr>stdout := stdout p @
                         [(if HTTP_TLS_Use fl then ''error in https server: ''
                           else ''error in http server: '') @ error_text err @ newline],
                      exit_code := Some 1\<rparr>)
          | _ \<Rightarrow> None)
     | Accept r \<Rightarrow>
         if gor p = Accepting then Some (p\<lparr>conns := conns p @ [InFlight r]\<rparr>) else None
     | Respond \<Rightarrow>
         (case respond_first fl e (wld p) (conns p) of
            None \<Rightarrow> None
          | Some (wd', cs') \<Rightarrow> Some (p\<lparr>wld := wd', conns := cs'\<rparr>))
     | Signal \<Rightarrow>
         if main p = AtCloser
         then Some (p\<lparr>main := AtReturn,
                      stdout := stdout p @ [''gracefully closing http connections'' @ newline],
                      conns := map close_conn (conns p),
                      gor := (if gor p = Binding \<or> gor p = Accepting
                              then Got (Some ErrServerClosed) else gor p)\<rparr>)
         else None
     | Return \<Rightarrow>
         if main p = AtReturn
         then Some (p\<lparr>main := HasReturned,
                      wld := (wld p)\<lparr>backend := Stop (backend (wld p))\<rparr>\<rparr>)
         else None)"

declare step.simps [simp del]

fun run :: "'a flags_scheme \<Rightarrow> env \<Rightarrow> event list \<Rightarrow> process \<Rightarrow> process option" where
  "run fl e [] p = Some p"
| "run fl e (ev # evs) p = (case step fl e ev p of None \<Rightarrow> None | Some p' \<Rightarrow> run fl e evs p')"

section \<open>Names for the parts of the router\<close>

text \<open>The three routes of a \<^verbatim>\<open>Mount\<close>, and a route of \<^verbatim>\<open>registerAPI\<close> behind its chain.\<close>

definition mount_routes :: "string \<Rightarrow> handler \<Rightarrow> route list" where
  "mount_routes p h =
     [\<lparr>rmethod = None, rpattern = p, rchain = [], rhandler = h\<rparr>,
      \<lparr>rmethod = None, rpattern = p @ ''/'', rchain = [], rhandler = h\<rparr>,
      \<lparr>rmethod = None, rpattern = p @ ''/*'', rchain = [], rhandler = h\<rparr>]"

definition api_route_of :: "middleware list \<Rightarrow> api_route \<Rightarrow> route" where
  "api_route_of ch a =
     (case a of (m, p, h) \<Rightarrow> \<lparr>rmethod = Some m, rpattern = p, rchain = ch, rhandler = apiHandler h\<rparr>)"

definition catchAll_route :: route where
  "catchAll_route = \<lparr>rmethod = Some GET, rpattern = ''/*'', rchain = [], rhandler = catchAll\<rparr>"

definition ping_route :: "'a flags_scheme \<Rightarrow> http_method \<Rightarrow> route" where
  "ping_route fl m =
     \<lparr>rmethod = Some m, rpattern = ''/api/ping'', rchain = pingChain fl, rhandler = pingHandler\<rparr>"

text \<open>
  The request as the router's own handler gets it from the global stack: after
  \<^verbatim>\<open>RealIP\<close>, when it is installed, and \<^verbatim>\<open>StripSlashes\<close>.
\<close>

definition routed :: "'a flags_scheme \<Rightarrow> env \<Rightarrow> request \<Rightarrow> request" where
  "routed fl e r = StripSlashes_request (if HTTP_Proxy fl then RealIP_request e r else r)"

text \<open>The router with the recoverer taken out of its stack, to say what the recoverer adds.\<close>

definition without_recoverer :: "mux \<Rightarrow> mux" where
  "without_recoverer mx =
     mx\<lparr>middlewares := filter (\<lambda>m. case m of Recoverer d \<Rightarrow> False | _ \<Rightarrow> True) (middlewares mx)\<rparr>"

fun world_of :: "result \<Rightarrow> world" where
  "world_of (Panicked wd w) = wd"
| "world_of (Returned wd w) = wd"


definition recover :: "result \<Rightarrow> result" where
  "recover res =
     (case res of
        Panicked wd w \<Rightarrow> Returned wd (WriteHeader 500 w)
      | Returned wd w \<Rightarrow> Returned wd w)"

section \<open>The ordering contract in the specification's words\<close>

text \<open>
  Section 4.4 of the specification lists the global stack, outermost first: the
  trusted-proxy rewrite, panic recovery, request logging, path normalisation, response
  compression, the optional backlog throttle. This is that list, to compare with the
  stack \<^verbatim>\<open>initHTTP\<close> builds.
\<close>

definition spec_stack :: "'a flags_scheme \<Rightarrow> middleware list" where
  "spec_stack fl =
     (if HTTP_Proxy fl then [RealIP] else []) @
     [Recoverer (Debug fl), Logger, StripSlashes, Compress 9] @
     (if 0 <s HTTP_Throttle fl
      then [ThrottleBacklog (HTTP_Throttle fl) (HTTP_Throttle fl * 2) 30] else [])"

section \<open>Concrete inputs\<close>

text \<open>
  A configuration behind a trusted proxy with a throttle of one and a limit of two
  requests, 60 seconds asked for as the window; an environment with one API route, an
  embedded \<^verbatim>\<open>index.html\<close> and one asset; a client.
\<close>

definition demo_config :: configuration where
  "demo_config =
     \<lparr>Debug = False, HTTP_Bind = '':8080'', HTTP_Proxy = True, HTTP_Throttle = 1,
      HTTP_CORS = [], HTTP_Limit = 2, HTTP_TLS_Use = False, HTTP_TLS_Cert = [],
      HTTP_TLS_Key = [], window_interval = 60, cleanup_tick = 10\<rparr>"

definition demo_env :: env where
  "demo_env =
     \<lparr>registerAPI = [(GET, ''/api/{addr}'', \<lambda>r. HResponse 200 [] ''{}'')],
      publicDist = (\<lambda>p. if p = ''public/dist/index.html'' then Some ''<html></html>'' else None),
      dbDetails = (\<lambda>r. [(''X-Maxmind-Type'', ''GeoLite2-City'')]),
      realIP = (\<lambda>r. hdr_Get (Header r) ''X-Forwarded-For''),
      corsPreflight = (\<lambda>origins r. []),
      corsActual = (\<lambda>origins r. [(''Vary'', ''Origin'')]),
      fileServer = (\<lambda>r. if URL_Path r = ''app.js'' then HResponse 200 [] [] else HResponse 404 [] []),
      profiler = (\<lambda>r. HResponse 200 [] [])\<rparr>"

definition demo_request :: "http_method \<Rightarrow> string \<Rightarrow> request" where
  "demo_request m p =
     \<lparr>Method = m, URL_Path = p, URL_RawPath = [], RoutePath = [],
      RemoteAddr = ''203.0.113.7:40000'', Header = []\<rparr>"

section \<open>More names and inputs\<close>

fun is_panic :: "result \<Rightarrow> bool" where
  "is_panic (Panicked wd w) = True"
| "is_panic (Returned wd w) = False"

text \<open>
  The demo environment with an API handler that writes status 200 and the start of a
  body, and then panics.
\<close>

definition panicking_env :: env where
  "panicking_env = demo_env\<lparr>registerAPI := [(GET, ''/api/{addr}'', \<lambda>r. HPanicAfter 200 [] ''{'')]\<rparr>"

text \<open>
  The writer as the ping handler gets it: the header fields of \<^verbatim>\<open>dbDetailsMiddleware\<close>,
  of the CORS handler, of \<^verbatim>\<open>NoCache\<close> and of \<^verbatim>\<open>rateHeaderMiddleware\<close>.
\<close>

definition ping_writer :: "'a flags_scheme \<Rightarrow> env \<Rightarrow> world \<Rightarrow> request \<Rightarrow> writer" where
  "ping_writer fl e wd r =
     (let r1 = routed fl e r;
          r2 = r1\<lparr>Header := fold hdr_Del etagHeaders (Header r1)\<rparr>;
          rl = limiter fl;
          en = peek (make_key (KeyMaker rl) r2) (unat (Interval rl)) (clock wd) (backend wd);
          remaining = (if count en \<le> Limit rl then Limit rl - count en else 0)
      in Header_Set ''X-Ratelimit-Reset'' (decimal (windowStart en + unat (Interval rl)))
           (Header_Set ''X-Ratelimit-Remaining'' (decimal (unat remaining))
             (Header_Set ''X-Ratelimit-Limit'' (decimal (unat (Limit rl)))
               (set_headers noCacheHeaders
                 (set_headers (corsActual e (corsOrigins fl) r1)
                   (set_headers (dbDetails e r1) new_writer))))))"

text \<open>A world in which the demo client has used up the limit of two, ten seconds into its window.\<close>

definition exhausted :: world where
  "exhausted =
     \<lparr>backend = (Start mapLimiter)\<lparr>entries :=
        (\<lambda>k. if k = ''203.0.113.7'' then Some \<lparr>count = 2, windowStart = 0\<rparr> else None)\<rparr>,
      clock = 10\<rparr>"

section \<open>Which counters a request can touch\<close>

text \<open>
  \<open>same_but k wd wd'\<close>: the two worlds differ at most in the counter of key \<open>k\<close>. A
  handler function counts its own key when it changes at most the counter of the key
  that \<^verbatim>\<open>DefaultKeyMaker\<close> makes of the request it is given; it leaves the backend alone
  when it changes nothing.
\<close>

definition same_but :: "string \<Rightarrow> world \<Rightarrow> world \<Rightarrow> bool" where
  "same_but k wd wd' =
     (clock wd' = clock wd \<and> tick (backend wd') = tick (backend wd)
      \<and> running (backend wd') = running (backend wd)
      \<and> (\<forall>k'. k' \<noteq> k \<longrightarrow> entries (backend wd') k' = entries (backend wd) k'))"

definition counts_own_key :: "serve_fn \<Rightarrow> bool" where
  "counts_own_key f = (\<forall>wd w r. same_but (make_key DefaultKeyMaker r) wd (world_of (f wd w r)))"

definition leaves_backend :: "serve_fn \<Rightarrow> bool" where
  "leaves_backend f = (\<forall>wd w r. world_of (f wd w r) = wd)"

text \<open>
  Modelled from the spec: the default of the proxy flag is declared with the flags
  struct, outside \<^verbatim>\<open>http.go\<close>. By section 4.1 of the specification the trust flag defaults
  to off. (The other fields are Go's zero values; nothing below depends on them.)
\<close>

definition default_flags :: flags where
  "default_flags =
     \<lparr>Debug = False, HTTP_Bind = [], HTTP_Proxy = False, HTTP_Throttle = 0, HTTP_CORS = [],
      HTTP_Limit = 0, HTTP_TLS_Use = False, HTTP_TLS_Cert = [], HTTP_TLS_Key = []\<rparr>"

text \<open>
  A CORS preflight, which the CORS handler answers itself; the request and the writer
  as a handler of \<^verbatim>\<open>registerAPI\<close> gets them from the global stack, the CORS handler and
  \<^verbatim>\<open>NoCache\<close>.
\<close>

definition is_preflight :: "request \<Rightarrow> bool" where
  "is_preflight r = (Method r = OPTIONS \<and> hdr_Get (Header r) ''Access-Control-Request-Method'' \<noteq> [])"

definition api_request :: "'a flags_scheme \<Rightarrow> env \<Rightarrow> request \<Rightarrow> request" where
  "api_request fl e r = (routed fl e r)\<lparr>Header := fold hdr_Del etagHeaders (Header (routed fl e r))\<rparr>"

definition api_writer :: "'a flags_scheme \<Rightarrow> env \<Rightarrow> request \<Rightarrow> writer" where
  "api_writer fl e r =
     set_headers noCacheHeaders
       (set_headers (corsActual e (corsOrigins fl) (routed fl e r))
         (set_headers (dbDetails e (routed fl e r)) new_writer))"

section \<open>Properties\<close>

section \<open>The shape of the router\<close>

lemma middlewares_handle [simp]: "middlewares (handle m ch p h r) = middlewares r"
  by (simp add: handle_def)

lemma middlewares_Mount [simp]: "middlewares (Mount p h r) = middlewares r"
  by (simp add: Mount_def)

lemma routes_handle [simp]:
  "routes (handle m ch p h r) = routes r @ [\<lparr>rmethod = m, rpattern = p, rchain = ch, rhandler = h\<rparr>]"
  by (simp add: handle_def)

lemma routes_Use [simp]: "routes (Use m r) = routes r"
  by (simp add: Use_def)

lemma middlewares_Use [simp]: "middlewares (Use m r) = middlewares r @ [m]"
  by (simp add: Use_def)

lemma Group_fold:
  "middlewares (Group ch api r) = middlewares r \<and>
   routes (Group ch api r) = routes r @ map (api_route_of ch) api"
  unfolding Group_def
proof (induction api arbitrary: r)
  case Nil
  then show ?case by simp
next
  case (Cons a api)
  show ?case
    by (cases a) (simp add: Cons.IH api_route_of_def)
qed

lemma middlewares_Group [simp]: "middlewares (Group ch api r) = middlewares r"
  by (simp add: Group_fold)

lemma routes_Group [simp]: "routes (Group ch api r) = routes r @ map (api_route_of ch) api"
  by (simp add: Group_fold)

lemma routes_Mount [simp]: "routes (Mount p h r) = routes r @ mount_routes p h"
  by (simp add: Mount_def mount_routes_def)

lemma useStack_middlewares:
  "middlewares (useStack fl NewRouter) =
     (if HTTP_Proxy fl then [RealIP] else []) @
     [Recoverer (Debug fl), Logger, StripSlashes, Compress 9, dbDetailsMiddleware] @
     (if 0 <s HTTP_Throttle fl
      then [ThrottleBacklog (HTTP_Throttle fl) (HTTP_Throttle fl * 2) 30] else [])"
  by (simp add: useStack_def NewRouter_def Let_def)

lemma useStack_routes [simp]: "routes (useStack fl NewRouter) = []"
  by (simp add: useStack_def NewRouter_def Let_def)

lemma router_middlewares:
  "middlewares (router fl api) = middlewares (useStack fl NewRouter)"
  by (simp add: router_def Let_def)

lemma router_routes:
  "routes (router fl api) =
     (if Debug fl then mount_routes ''/debug'' Profiler else []) @
     mount_routes ''/dist'' distHandler @
     [catchAll_route] @
     map (api_route_of (apiChain fl)) api @
     [ping_route fl GET, ping_route fl HEAD]"
  by (simp add: router_def Let_def catchAll_route_def ping_route_def)

section \<open>Routing\<close>



lemma pick_member: "pick acc rs = Some r \<Longrightarrow> r \<in> set rs \<or> acc = Some r"
proof (induction rs arbitrary: acc)
  case Nil
  then show ?case by simp
next
  case (Cons x rs)
  show ?case
  proof (cases acc)
    case None
    with Cons.prems have "pick (Some x) rs = Some r" by simp
    from Cons.IH [OF this] show ?thesis by auto
  next
    case (Some a)
    with Cons.prems have
      "pick (Some (if better (parse_pattern (rpattern a)) (parse_pattern (rpattern x)) then a else x)) rs
         = Some r" by simp
    from Cons.IH [OF this] Some show ?thesis by (auto split: if_splits)
  qed
qed

lemma FindRoute_Found:
  assumes "FindRoute rts m path = Found rt"
  shows "rt \<in> set rts \<and> method_matches m rt \<and> path_matches path rt"
proof -
  from assms have "pick None (filter (\<lambda>rt. method_matches m rt \<and> path_matches path rt) rts) = Some rt"
    by (auto simp: FindRoute_def split: option.splits if_splits)
  from pick_member [OF this] show ?thesis by auto
qed

lemma split_ping: "split_on CHR ''/'' ''/api/ping'' = [[], ''api'', ''ping'']"
  by simp






section \<open>The global stack\<close>

lemma chain_Nil [simp]: "chain fl e [] h = h"
  by (simp add: chain_def)

lemma chain_Cons [simp]: "chain fl e (m # ms) h = apply_mw fl e m (chain fl e ms h)"
  by (simp add: chain_def)

lemma ServeHTTP_router:
  "ServeHTTP fl e (router fl api) wd w r =
     recover (routeHTTP fl e (router fl api) wd (set_headers (dbDetails e (routed fl e r)) w) (routed fl e r))"
  by (simp add: ServeHTTP_def router_middlewares useStack_middlewares routed_def recover_def)

lemma routed_fields [simp]:
  "Method (routed fl e r) = Method r" "URL_Path (routed fl e r) = URL_Path r"
  "URL_RawPath (routed fl e r) = URL_RawPath r" "Header (routed fl e r) = Header r"
  by (simp_all add: routed_def StripSlashes_request_def RealIP_request_def Let_def)

section \<open>C4: the order of the middleware stack\<close>

text \<open>
  C4, as amended. For every configuration and every set of API routes, the global stack
  of the router is, outermost first: the trusted-proxy rewrite when it is enabled, panic
  recovery, request logging, slash stripping, compression, \<^verbatim>\<open>dbDetailsMiddleware\<close>, and
  the backlog throttle when its size is positive. The route groups run below that stack;
  no route installs the rewrite, the recoverer or the logger inline, and the rate limiter
  is nowhere in the global stack, so the rewrite and the recoverer come before the
  logger and the limiter.
\<close>

theorem stack_order:
  "middlewares (router fl api) =
     (if HTTP_Proxy fl then [RealIP] else []) @
     [Recoverer (Debug fl), Logger, StripSlashes, Compress 9, dbDetailsMiddleware] @
     (if 0 <s HTTP_Throttle fl
      then [ThrottleBacklog (HTTP_Throttle fl) (HTTP_Throttle fl * 2) 30] else [])
   \<and> ServeHTTP fl e (router fl api) =
       chain fl e (middlewares (router fl api)) (routeHTTP fl e (router fl api))
   \<and> (\<forall>rt \<in> set (routes (router fl api)). \<forall>m \<in> set (rchain rt).
         m \<noteq> RealIP \<and> m \<noteq> Recoverer (Debug fl) \<and> m \<noteq> Logger)
   \<and> (\<forall>m \<in> set (middlewares (router fl api)). \<forall>rl. m \<noteq> LimiterHandle rl)"
proof -
  have inline: "\<forall>m \<in> set (rchain rt). m \<noteq> RealIP \<and> m \<noteq> Recoverer (Debug fl) \<and> m \<noteq> Logger"
    if "rt \<in> set (routes (router fl api))" for rt
    using that
    by (auto simp: router_routes mount_routes_def catchAll_route_def ping_route_def
        api_route_of_def apiChain_def pingChain_def split: if_splits)
  have global: "\<forall>m \<in> set (middlewares (router fl api)). \<forall>rl. m \<noteq> LimiterHandle rl"
    by (auto simp: router_middlewares useStack_middlewares)
  show ?thesis
    using inline global
    by (simp add: router_middlewares useStack_middlewares ServeHTTP_def)
qed

text \<open>The stack of the demo configuration, which has the proxy and the throttle on.\<close>

theorem stack_order_witness:
  "middlewares (router demo_config (registerAPI demo_env)) =
     [RealIP, Recoverer False, Logger, StripSlashes, Compress 9, dbDetailsMiddleware,
      ThrottleBacklog 1 2 30]"
  using stack_order [of demo_config "registerAPI demo_env" demo_env, THEN conjunct1]
  by (simp add: demo_config_def word_sless_alt)

text \<open>
  C4 as stated fails: the stack is not the list of section 4.4, which has nothing between
  compression and the throttle.
\<close>

theorem spec_stack_counterexample:
  "middlewares (router demo_config (registerAPI demo_env)) \<noteq> spec_stack demo_config"
  by (simp add: router_middlewares useStack_middlewares spec_stack_def demo_config_def)

section \<open>Writers\<close>

lemma wstatus_Header_Set [simp]: "wstatus (Header_Set k v w) = wstatus w"
  by (simp add: Header_Set_def)

lemma wbody_Header_Set [simp]: "wbody (Header_Set k v w) = wbody w"
  by (simp add: Header_Set_def)

lemma set_headers_Nil [simp]: "set_headers [] w = w"
  by (simp add: set_headers_def)

lemma set_headers_Cons [simp]: "set_headers ((k, v) # hs) w = set_headers hs (Header_Set k v w)"
  by (simp add: set_headers_def)

lemma wstatus_set_headers [simp]: "wstatus (set_headers hs w) = wstatus w"
  by (induction hs arbitrary: w) auto

lemma wbody_set_headers [simp]: "wbody (set_headers hs w) = wbody w"
  by (induction hs arbitrary: w) auto

lemma wstatus_WriteHeader: "wstatus (WriteHeader c w) = (if wstatus w \<noteq> 0 then wstatus w else c)"
  by (simp add: WriteHeader_def)

lemma map_of_hdr_Set: "map_of (hdr_Set k v h) k' = (if k' = k then Some v else map_of h k')"
  by (induction h) (auto simp: hdr_Set_def)

section \<open>Panics\<close>

lemma routeHTTP_without_recoverer [simp]:
  "routeHTTP fl e (without_recoverer mx) = routeHTTP fl e mx"
  by (auto simp: routeHTTP_def without_recoverer_def fun_eq_iff)

lemma ServeHTTP_without_recoverer:
  "ServeHTTP fl e (without_recoverer (router fl api)) wd w r =
     routeHTTP fl e (router fl api) wd (set_headers (dbDetails e (routed fl e r)) w) (routed fl e r)"
proof -
  have "middlewares (without_recoverer (router fl api)) =
          (if HTTP_Proxy fl then [RealIP] else []) @
          [Logger, StripSlashes, Compress 9, dbDetailsMiddleware] @
          (if 0 <s HTTP_Throttle fl
           then [ThrottleBacklog (HTTP_Throttle fl) (HTTP_Throttle fl * 2) 30] else [])"
    by (simp add: without_recoverer_def router_middlewares useStack_middlewares)
  then show ?thesis
    by (simp add: ServeHTTP_def routed_def)
qed

lemma serve_router:
  "serve fl e wd r =
     (case routeHTTP fl e (router fl (registerAPI e)) wd
             (set_headers (dbDetails e (routed fl e r)) new_writer) (routed fl e r) of
        Panicked wd' w' \<Rightarrow> (wd', Some (finish (WriteHeader 500 w')))
      | Returned wd' w' \<Rightarrow> (wd', Some (finish w')))"
  by (simp add: serve_def ServeHTTP_router recover_def split: result.splits)

lemma serve_responds: "\<exists>resp. snd (serve fl e wd r) = Some resp"
  by (simp add: serve_router split: result.splits)

lemma serve_recovers:
  assumes "ServeHTTP fl e (without_recoverer (router fl (registerAPI e))) wd new_writer r = Panicked wd' w'"
  shows "serve fl e wd r = (wd', Some (finish (WriteHeader 500 w')))"
  using assms by (simp add: ServeHTTP_without_recoverer serve_router)

lemma catchAll_panics_unwritten:
  assumes "ServeHTTP fl e (without_recoverer (router fl (registerAPI e))) wd new_writer r = Panicked wd' w'"
    and "FindRoute (routes (router fl (registerAPI e))) (Method r) (route_path (routed fl e r))
           = Found catchAll_route"
  shows "wstatus w' = 0"
  using assms
  by (auto simp: ServeHTTP_without_recoverer routeHTTP_def catchAll_route_def catchAll_fn_def
      new_writer_def split: if_splits option.splits)

section \<open>Evaluating the router on concrete requests\<close>

lemmas route_eval =
  router_routes mount_routes_def catchAll_route_def ping_route_def api_route_of_def
  FindRoute_def method_matches_def path_matches_def parse_pattern_def seg_of_def
  routeHTTP_def route_path_def routed_def RealIP_request_def StripSlashes_request_def
  hdr_Get_def HasPrefix_def TrimPrefix_def

lemmas demo_defs = demo_config_def demo_env_def demo_request_def

section \<open>C6: a panicking handler\<close>

text \<open>
  C6, as amended. Take a process that is serving, and a request that would end in a
  panic if the recoverer were not in the stack: its route's handler panics
  (\<open>panic_origin\<close> below: no other panic leaves the router). With the recoverer the panic
  is caught and the request gets a response; the process is neither exited nor stopped
  from accepting, and the next request is taken. The status of the response is 500 when
  the handler had not written a status before it panicked, and the status the handler
  wrote otherwise. The catch-all of \<^verbatim>\<open>http.go\<close> panics before it writes, so its panic
  is answered 500. (That the recoverer, a library, answers a panic with 500 is taken
  from section 7 of the specification.)
\<close>

theorem handler_panic_recovered:
  assumes "exit_code p = None" and "gor p = Accepting" and "conns p = []"
    and "ServeHTTP fl e (without_recoverer (router fl (registerAPI e))) (wld p) new_writer r
           = Panicked wd' w'"
  shows "\<exists>resp p'. serve fl e (wld p) r = (wd', Some resp)
           \<and> status resp = (if wstatus w' = 0 then 500 else wstatus w')
           \<and> (FindRoute (routes (router fl (registerAPI e))) (Method r) (route_path (routed fl e r))
                 = Found catchAll_route \<longrightarrow> status resp = 500)
           \<and> run fl e [Accept r, Respond, Accept r2] p = Some p'
           \<and> conns p' = [Completed (Some resp), InFlight r2]
           \<and> exit_code p' = None \<and> gor p' = Accepting"
proof -
  let ?resp = "finish (WriteHeader 500 w')"
  from serve_recovers [OF assms(4)]
  have s: "serve fl e (wld p) r = (wd', Some ?resp)" .
  have st: "status ?resp = (if wstatus w' = 0 then 500 else wstatus w')"
    by (simp add: finish_def WriteHeader_def)
  have ca: "status ?resp = 500"
    if "FindRoute (routes (router fl (registerAPI e))) (Method r) (route_path (routed fl e r))
          = Found catchAll_route"
    using catchAll_panics_unwritten [OF assms(4) that] st by simp
  from assms(1-3) s
  have "run fl e [Accept r, Respond, Accept r2] p
          = Some (p\<lparr>conns := [Completed (Some ?resp), InFlight r2], wld := wd'\<rparr>)"
    by (simp add: step.simps)
  with s st ca assms(1,2) show ?thesis by simp
qed

text \<open>
  The catch-all on \<^verbatim>\<open>GET /about\<close> with nothing embedded: \<^verbatim>\<open>ReadFile\<close> fails, the handler
  panics, the client gets 500 and \<^verbatim>\<open>/api/ping\<close> is accepted next.
\<close>

theorem handler_panic_recovered_witness:
  "\<exists>resp p'. serve demo_config (demo_env\<lparr>publicDist := (\<lambda>p. None)\<rparr>)
                 \<lparr>backend = Start mapLimiter, clock = 0\<rparr> (demo_request GET ''/about'')
               = (\<lparr>backend = Start mapLimiter, clock = 0\<rparr>, Some resp)
           \<and> status resp = 500
           \<and> run demo_config (demo_env\<lparr>publicDist := (\<lambda>p. None)\<rparr>)
                 [Accept (demo_request GET ''/about''), Respond, Accept (demo_request GET ''/api/ping'')]
                 ((new_process 0)\<lparr>main := AtCloser, gor := Accepting,
                    wld := \<lparr>backend = Start mapLimiter, clock = 0\<rparr>\<rparr>) = Some p'
           \<and> conns p' = [Completed (Some resp), InFlight (demo_request GET ''/api/ping'')]
           \<and> exit_code p' = None \<and> gor p' = Accepting"
proof -
  let ?e = "demo_env\<lparr>publicDist := (\<lambda>p. None)\<rparr>"
  let ?wd = "\<lparr>backend = Start mapLimiter, clock = 0\<rparr>"
  let ?p = "(new_process 0)\<lparr>main := AtCloser, gor := Accepting, wld := ?wd\<rparr>"
  have panic: "ServeHTTP demo_config ?e (without_recoverer (router demo_config (registerAPI ?e)))
                 (wld ?p) new_writer (demo_request GET ''/about'')
               = Panicked ?wd (set_headers (dbDetails ?e (demo_request GET ''/about'')) new_writer)"
    by (simp add: ServeHTTP_without_recoverer route_eval demo_defs catchAll_fn_def)
  from handler_panic_recovered [OF _ _ _ panic, of "demo_request GET ''/api/ping''"]
  show ?thesis by (simp add: new_process_def new_writer_def) blast
qed

text \<open>
  C6 as stated fails: a handler that panics after it has written its status. The API
  handler of \<open>panicking_env\<close> writes 200 and panics; the recoverer's \<^verbatim>\<open>WriteHeader(500)\<close>
  comes after the status line, and the client receives 200.
\<close>

theorem panic_after_write_counterexample:
  "is_panic (ServeHTTP demo_config panicking_env
       (without_recoverer (router demo_config (registerAPI panicking_env)))
       \<lparr>backend = Start mapLimiter, clock = 0\<rparr> new_writer (demo_request GET ''/api/198.51.100.1''))
   \<and> map_option status
       (snd (serve demo_config panicking_env \<lparr>backend = Start mapLimiter, clock = 0\<rparr>
               (demo_request GET ''/api/198.51.100.1'')))
       = Some 200"
  by (simp add: ServeHTTP_without_recoverer serve_router route_eval demo_defs panicking_env_def
      apiChain_def limiter_def limiter_Handle_def increment_def live_def SplitHostPort_def
      last_index_def Let_def apply_result_def finish_def WriteHeader_def Write_def
      word_sless_alt Start_def mapLimiter_def NewMapLimiter_def new_writer_def
      corsOrigins_def noCacheHeaders_def etagHeaders_def hdr_Del_def)

section \<open>Where a panic comes from\<close>

text \<open>
  No middleware panics by itself: a panic that leaves a chain was raised by the handler
  at its end. So the request of C6, which ends in a panic without the recoverer, is a
  request whose route handler panicked.
\<close>

lemma panic_through_apply_mw:
  assumes "apply_mw fl e m next wd w r = Panicked wd' w'"
  shows "\<exists>wd1 w1 r1. next wd1 w1 r1 = Panicked wd' w'"
proof (cases m)
  case (Recoverer d)
  with assms show ?thesis by (simp split: result.splits)
next
  case (CorsHandler origins)
  with assms show ?thesis by (auto split: if_splits)
next
  case (LimiterHandle rl)
  with assms show ?thesis
    by (auto simp: limiter_Handle_def Let_def case_prod_beta split: if_splits)
next
  case rateHeaderMiddleware
  with assms show ?thesis by (auto simp: rateHeader_fn_def Let_def)
qed (use assms in auto)

lemma panic_through_chain:
  "chain fl e ms h wd w r = Panicked wd' w' \<Longrightarrow> \<exists>wd1 w1 r1. h wd1 w1 r1 = Panicked wd' w'"
proof (induction ms arbitrary: wd w r)
  case Nil
  then show ?case by auto
next
  case (Cons m ms)
  from Cons.prems have "apply_mw fl e m (chain fl e ms h) wd w r = Panicked wd' w'" by simp
  from panic_through_apply_mw [OF this] Cons.IH show ?case by blast
qed

lemma panic_origin:
  assumes "ServeHTTP fl e (without_recoverer (router fl api)) wd w r = Panicked wd' w'"
  shows "\<exists>rt \<in> set (routes (router fl api)). \<exists>wd1 w1 r1.
           run_handler e (rhandler rt) wd1 w1 r1 = Panicked wd' w'"
proof -
  let ?r = "routed fl e r"
  from assms have inner:
    "routeHTTP fl e (router fl api) wd (set_headers (dbDetails e ?r) w) ?r = Panicked wd' w'"
    by (simp add: ServeHTTP_without_recoverer)
  show ?thesis
  proof (cases "FindRoute (routes (router fl api)) (Method ?r) (route_path ?r)")
    case (Found rt)
    with inner have "chain fl e (rchain rt) (run_handler e (rhandler rt)) wd
                       (set_headers (dbDetails e ?r) w) ?r = Panicked wd' w'"
      by (simp add: routeHTTP_def)
    from panic_through_chain [OF this] FindRoute_Found [OF Found] show ?thesis by blast
  next
    case MethodNotAllowed
    with inner show ?thesis by (simp add: routeHTTP_def)
  next
    case NotFound
    with inner show ?thesis by (simp add: routeHTTP_def)
  qed
qed

section \<open>The ping route\<close>

lemma wheader_Header_Set: "wstatus w = 0 \<Longrightarrow> wheader (Header_Set k v w) = hdr_Set k v (wheader w)"
  by (simp add: Header_Set_def)


lemma ping_writer_fresh [simp]: "wstatus (ping_writer fl e wd r) = 0" "wbody (ping_writer fl e wd r) = []"
  by (simp_all add: ping_writer_def Let_def new_writer_def)



section \<open>C1: the ping endpoint is outside the rate-limited group\<close>



section \<open>Which routes answer HEAD\<close>







text \<open>
  The mounts are registered for every method: a \<^verbatim>\<open>HEAD\<close> request for an asset is routed
  to the \<^verbatim>\<open>/dist\<close> mount and answered by the file server.
\<close>

lemma head_on_dist_mount:
  "FindRoute (routes (router demo_config (registerAPI demo_env))) HEAD ''/dist/app.js''
     = Found \<lparr>rmethod = None, rpattern = ''/dist/*'', rchain = [], rhandler = distHandler\<rparr>
   \<and> map_option status (snd (serve demo_config demo_env exhausted (demo_request HEAD ''/dist/app.js'')))
       = Some 200"
  by (simp add: serve_router route_eval demo_defs distHandler_fn_def apply_result_def
      finish_def WriteHeader_def Write_def new_writer_def)

section \<open>C7: what the ping endpoint answers\<close>



section \<open>C8: the catch-all\<close>

text \<open>
  C8. A \<^verbatim>\<open>GET\<close> request that finds no better route than the catch-all \<^verbatim>\<open>/*\<close> (so neither
  the \<^verbatim>\<open>/dist\<close> mount nor another registered route matches the path it is routed on) is
  answered, when its path \<^verbatim>\<open>r.URL.Path\<close> does not begin with \<^verbatim>\<open>/api\<close>, with status 200 and
  the content of the embedded \<^verbatim>\<open>public/dist/index.html\<close>, and when its path begins with
  \<^verbatim>\<open>/api\<close>, with 404 Not Found. The route is looked up as chi does it: on the raw path
  when the request was sent with escapes, else on the path.
\<close>

theorem catch_all_answers:
  assumes "Method r = GET"
    and "FindRoute (routes (router fl (registerAPI e))) GET (route_path (routed fl e r))
           = Found catchAll_route"
  shows "(\<not> HasPrefix (URL_Path r) ''/api'' \<longrightarrow> publicDist e ''public/dist/index.html'' = Some b \<longrightarrow>
            (\<exists>resp. snd (serve fl e wd r) = Some resp \<and> status resp = 200 \<and> rbody resp = b))
       \<and> (HasPrefix (URL_Path r) ''/api'' \<longrightarrow>
            (\<exists>resp. snd (serve fl e wd r) = Some resp \<and> status resp = 404
               \<and> rbody resp = ''404 page not found'' @ newline))"
  using assms
  by (simp add: serve_router routeHTTP_def catchAll_route_def catchAll_fn_def finish_def
      Write_def WriteHeader_def http_NotFound_def http_Error_def new_writer_def)

text \<open>
  \<^verbatim>\<open>GET /about\<close> gets the document; \<^verbatim>\<open>GET /api/a/b\<close>, which the one API route
  \<^verbatim>\<open>/api/{addr}\<close> does not match, gets 404; and so does \<^verbatim>\<open>GET /%61pi/ping\<close>, whose path is
  \<^verbatim>\<open>/api/ping\<close> but which is routed on its raw path, so that the ping route does not match.
\<close>

theorem catch_all_answers_witness:
  "(\<exists>resp. snd (serve demo_config demo_env exhausted (demo_request GET ''/about'')) = Some resp
       \<and> status resp = 200 \<and> rbody resp = ''<html></html>'')
   \<and> (\<exists>resp. snd (serve demo_config demo_env exhausted (demo_request GET ''/api/a/b'')) = Some resp
       \<and> status resp = 404 \<and> rbody resp = ''404 page not found'' @ newline)
   \<and> (\<exists>resp. snd (serve demo_config demo_env exhausted
                    ((demo_request GET ''/api/ping'')\<lparr>URL_RawPath := ''/%61pi/ping''\<rparr>)) = Some resp
       \<and> status resp = 404 \<and> rbody resp = ''404 page not found'' @ newline)"
proof -
  let ?esc = "(demo_request GET ''/api/ping'')\<lparr>URL_RawPath := ''/%61pi/ping''\<rparr>"
  have a: "FindRoute (routes (router demo_config (registerAPI demo_env))) GET
             (route_path (routed demo_config demo_env (demo_request GET ''/about''))) = Found catchAll_route"
    by (simp add: route_eval demo_defs)
  have b: "FindRoute (routes (router demo_config (registerAPI demo_env))) GET
             (route_path (routed demo_config demo_env (demo_request GET ''/api/a/b''))) = Found catchAll_route"
    by (simp add: route_eval demo_defs)
  have c: "FindRoute (routes (router demo_config (registerAPI demo_env))) GET
             (route_path (routed demo_config demo_env ?esc)) = Found catchAll_route"
    by (simp add: route_eval demo_defs)
  have m: "Method (demo_request GET p) = GET" "Method ((demo_request GET p)\<lparr>URL_RawPath := q\<rparr>) = GET"
    for p q by (simp_all add: demo_request_def)
  from catch_all_answers [OF m(1) a, of "''<html></html>''" exhausted]
    catch_all_answers [OF m(1) b, of "''<html></html>''" exhausted]
    catch_all_answers [OF m(2) c, of "''<html></html>''" exhausted]
  show ?thesis by (simp add: demo_request_def demo_env_def HasPrefix_def)
qed

text \<open>
  A request sent as \<^verbatim>\<open>/api/a%2Fb\<close> has the path \<^verbatim>\<open>/api/a/b\<close> and is routed on the raw path:
  the API route \<^verbatim>\<open>/api/{addr}\<close> matches, the catch-all is not reached, and the API handler
  answers.
\<close>

lemma escaped_slash_is_routed_raw:
  "FindRoute (routes (router demo_config (registerAPI demo_env))) GET
     (route_path (routed demo_config demo_env
        ((demo_request GET ''/api/a/b'')\<lparr>URL_RawPath := ''/api/a%2Fb''\<rparr>)))
     \<noteq> Found catchAll_route
   \<and> map_option status
       (snd (serve demo_config demo_env \<lparr>backend = Start mapLimiter, clock = 0\<rparr>
          ((demo_request GET ''/api/a/b'')\<lparr>URL_RawPath := ''/api/a%2Fb''\<rparr>))) = Some 200"
  by (simp add: serve_router route_eval demo_defs apiChain_def limiter_def limiter_Handle_def
      increment_def live_def SplitHostPort_def last_index_def Let_def apply_result_def
      finish_def WriteHeader_def Write_def word_sless_alt Start_def mapLimiter_def
      NewMapLimiter_def new_writer_def corsOrigins_def noCacheHeaders_def etagHeaders_def
      hdr_Del_def)

section \<open>The key of a request\<close>

lemma same_but_refl [simp]: "same_but k wd wd"
  by (simp add: same_but_def)

lemma same_but_trans: "same_but k a b \<Longrightarrow> same_but k b c \<Longrightarrow> same_but k a c"
  by (simp add: same_but_def)

lemma same_but_increment:
  "same_but k wd (wd\<lparr>backend := snd (increment k i now (backend wd))\<rparr>)"
  by (simp add: same_but_def increment_def Let_def)

lemma cokD: "counts_own_key f \<Longrightarrow> same_but (make_key DefaultKeyMaker r) wd (world_of (f wd w r))"
  by (simp add: counts_own_key_def)

lemma make_key_StripSlashes [simp]:
  "make_key km (StripSlashes_request r) = make_key km r"
  by (cases km) (simp add: StripSlashes_request_def Let_def split: option.splits)

lemma make_key_Header [simp]: "make_key km (r\<lparr>Header := h\<rparr>) = make_key km r"
  by (cases km) (simp split: option.splits)

lemma cok_apply_mw:
  assumes "counts_own_key next" and "m \<noteq> RealIP"
  shows "counts_own_key (apply_mw fl e m next)"
  unfolding counts_own_key_def
proof (intro allI)
  fix wd w r
  note below = cokD [OF assms(1)]
  show "same_but (make_key DefaultKeyMaker r) wd (world_of (apply_mw fl e m next wd w r))"
  proof (cases m)
    case RealIP
    with assms(2) show ?thesis by simp
  next
    case (Recoverer d)
    then show ?thesis
      using below [of r wd w] by (cases "next wd w r") simp_all
  next
    case StripSlashes
    then show ?thesis
      using below [of "StripSlashes_request r" wd w] by simp
  next
    case NoCache
    then show ?thesis
      using below [of "r\<lparr>Header := fold hdr_Del etagHeaders (Header r)\<rparr>" wd] by simp
  next
    case (LimiterHandle rl)
    have km: "KeyMaker rl = DefaultKeyMaker" by (cases "KeyMaker rl") simp
    let ?k = "make_key DefaultKeyMaker r"
    let ?wd = "wd\<lparr>backend := snd (increment ?k (unat (Interval rl)) (clock wd) (backend wd))\<rparr>"
    have one: "same_but ?k wd ?wd" by (rule same_but_increment)
    show ?thesis
    proof (cases "Limit rl < count (fst (increment ?k (unat (Interval rl)) (clock wd) (backend wd)))")
      case True
      with LimiterHandle one show ?thesis
        by (simp add: limiter_Handle_def km Let_def case_prod_beta)
    next
      case False
      with LimiterHandle same_but_trans [OF one below [of r ?wd]] show ?thesis
        by (simp add: limiter_Handle_def km Let_def case_prod_beta)
    qed
  next
    case rateHeaderMiddleware
    then show ?thesis using below [of r wd] by (simp add: rateHeader_fn_def Let_def)
  next
    case (CorsHandler origins)
    then show ?thesis using below [of r wd] by simp
  qed (use below [of r wd] in simp_all)
qed

lemma cok_chain:
  "counts_own_key h \<Longrightarrow> RealIP \<notin> set ms \<Longrightarrow> counts_own_key (chain fl e ms h)"
  by (induction ms) (auto intro: cok_apply_mw)

lemma world_of_apply_result [simp]: "world_of (apply_result hr wd w) = wd"
  by (simp add: apply_result_def split: handler_result.splits)

lemma leaves_run_handler: "leaves_backend (run_handler e h)"
  by (cases h)
    (auto simp: leaves_backend_def pingHandler_fn_def catchAll_fn_def distHandler_fn_def
      split: option.splits)

lemma leaves_counts: "leaves_backend f \<Longrightarrow> counts_own_key f"
  by (simp add: leaves_backend_def counts_own_key_def)

lemma route_chain_no_RealIP:
  "rt \<in> set (routes (router fl api)) \<Longrightarrow> RealIP \<notin> set (rchain rt)"
  by (auto simp: router_routes mount_routes_def catchAll_route_def ping_route_def
      api_route_of_def apiChain_def pingChain_def split: if_splits)

lemma cok_routeHTTP: "counts_own_key (routeHTTP fl e (router fl api))"
  unfolding counts_own_key_def
proof (intro allI)
  fix wd w r
  show "same_but (make_key DefaultKeyMaker r) wd (world_of (routeHTTP fl e (router fl api) wd w r))"
  proof (cases "FindRoute (routes (router fl api)) (Method r) (route_path r)")
    case (Found rt)
    from FindRoute_Found [OF this] have "RealIP \<notin> set (rchain rt)"
      by (auto dest: route_chain_no_RealIP)
    from cok_chain [OF leaves_counts [OF leaves_run_handler] this, of fl e e "rhandler rt"] Found
    show ?thesis by (simp add: routeHTTP_def counts_own_key_def)
  qed (simp_all add: routeHTTP_def)
qed

lemma cok_ServeHTTP:
  assumes "\<not> HTTP_Proxy fl"
  shows "counts_own_key (ServeHTTP fl e (router fl api))"
proof -
  from assms have "RealIP \<notin> set (middlewares (router fl api))"
    by (simp add: router_middlewares useStack_middlewares)
  from cok_chain [OF cok_routeHTTP this] show ?thesis by (simp add: ServeHTTP_def)
qed

lemma fst_serve: "fst (serve fl e wd r) = world_of (ServeHTTP fl e (router fl (registerAPI e)) wd new_writer r)"
  by (simp add: serve_def split: result.splits)

section \<open>C9: the trusted-proxy flag\<close>

text \<open>
  C9. \<^verbatim>\<open>RealIP\<close> is in the router's stack if and only if \<^verbatim>\<open>flags.HTTP.Proxy\<close> is set, and
  no route installs it inline; the limiter's key maker is \<^verbatim>\<open>DefaultKeyMaker\<close>. With the
  flag off, serving a request changes at most the counter whose key is the host of the
  request's remote address (the whole address when it does not split): no header of
  the request can move the count to another key. With the default configuration the
  rewrite is not installed.
\<close>

theorem proxy_flag:
  "(RealIP \<in> set (middlewares (router fl (registerAPI e))) \<longleftrightarrow> HTTP_Proxy fl)
   \<and> (\<forall>rt \<in> set (routes (router fl (registerAPI e))). RealIP \<notin> set (rchain rt))
   \<and> KeyMaker (limiter fl) = DefaultKeyMaker
   \<and> (\<not> HTTP_Proxy fl \<longrightarrow>
        (\<forall>k. k \<noteq> (case SplitHostPort (RemoteAddr r) of None \<Rightarrow> RemoteAddr r | Some (host, port) \<Rightarrow> host)
           \<longrightarrow> entries (backend (fst (serve fl e wd r))) k = entries (backend wd) k))
   \<and> RealIP \<notin> set (middlewares (router default_flags (registerAPI e)))"
proof -
  have frame: "entries (backend (fst (serve fl e wd r))) k = entries (backend wd) k"
    if "\<not> HTTP_Proxy fl"
      and "k \<noteq> (case SplitHostPort (RemoteAddr r) of None \<Rightarrow> RemoteAddr r | Some (host, port) \<Rightarrow> host)"
    for k
    using cokD [OF cok_ServeHTTP [OF that(1)], of r wd e "registerAPI e" new_writer] that(2)
    by (simp add: fst_serve same_but_def)
  show ?thesis
    using frame
    by (auto simp: router_middlewares useStack_middlewares route_chain_no_RealIP limiter_def
        default_flags_def)
qed

text \<open>
  The proxy flag off and a forged \<^verbatim>\<open>X-Forwarded-For\<close>: the request to an API route counts
  against the remote address, and the forged address has no counter.
\<close>

theorem proxy_flag_witness:
  "entries (backend (fst (serve (demo_config\<lparr>HTTP_Proxy := False\<rparr>) demo_env
       \<lparr>backend = Start mapLimiter, clock = 0\<rparr>
       ((demo_request GET ''/api/198.51.100.1'')\<lparr>Header := [(''X-Forwarded-For'', ''192.0.2.99'')]\<rparr>))))
     ''192.0.2.99'' = None
   \<and> entries (backend (fst (serve (demo_config\<lparr>HTTP_Proxy := False\<rparr>) demo_env
       \<lparr>backend = Start mapLimiter, clock = 0\<rparr>
       ((demo_request GET ''/api/198.51.100.1'')\<lparr>Header := [(''X-Forwarded-For'', ''192.0.2.99'')]\<rparr>))))
     ''203.0.113.7'' = Some \<lparr>count = 1, windowStart = 0\<rparr>
   \<and> RealIP \<notin> set (middlewares (router (demo_config\<lparr>HTTP_Proxy := False\<rparr>) (registerAPI demo_env)))"
proof -
  let ?fl = "demo_config\<lparr>HTTP_Proxy := False\<rparr>"
  let ?r = "(demo_request GET ''/api/198.51.100.1'')\<lparr>Header := [(''X-Forwarded-For'', ''192.0.2.99'')]\<rparr>"
  let ?wd = "\<lparr>backend = Start mapLimiter, clock = 0\<rparr>"
  have key: "(case SplitHostPort (RemoteAddr ?r) of None \<Rightarrow> RemoteAddr ?r | Some (host, port) \<Rightarrow> host)
               = ''203.0.113.7''"
    by (simp add: demo_request_def SplitHostPort_def last_index_def)
  have own: "entries (backend (fst (serve ?fl demo_env ?wd ?r))) ''203.0.113.7''
               = Some \<lparr>count = 1, windowStart = 0\<rparr>"
    by (simp add: serve_router route_eval demo_defs apiChain_def limiter_def limiter_Handle_def
        increment_def live_def SplitHostPort_def last_index_def Let_def apply_result_def
        word_sless_alt Start_def mapLimiter_def NewMapLimiter_def
        corsOrigins_def noCacheHeaders_def etagHeaders_def hdr_Del_def split: prod.splits)
  from proxy_flag [of ?fl demo_env ?r ?wd] key
  have "entries (backend (fst (serve ?fl demo_env ?wd ?r))) ''192.0.2.99'' = entries (backend ?wd) ''192.0.2.99''"
    and "RealIP \<notin> set (middlewares (router ?fl (registerAPI demo_env)))"
    by (simp_all add: demo_config_def)
  with own show ?thesis
    by (simp add: Start_def mapLimiter_def NewMapLimiter_def)
qed

section \<open>Requests that hit no limiter\<close>

lemma lbD: "leaves_backend f \<Longrightarrow> world_of (f wd w r) = wd"
  by (simp add: leaves_backend_def)

lemma lb_apply_mw:
  assumes "leaves_backend next" and "\<And>rl. m \<noteq> LimiterHandle rl"
  shows "leaves_backend (apply_mw fl e m next)"
  unfolding leaves_backend_def
proof (intro allI)
  fix wd w r
  note below = lbD [OF assms(1)]
  show "world_of (apply_mw fl e m next wd w r) = wd"
  proof (cases m)
    case (LimiterHandle rl)
    with assms(2) [of rl] show ?thesis by simp
  next
    case (Recoverer d)
    then show ?thesis using below [of wd w r] by (cases "next wd w r") simp_all
  next
    case rateHeaderMiddleware
    then show ?thesis by (simp add: rateHeader_fn_def Let_def below)
  qed (simp_all add: below)
qed

lemma lb_chain:
  "leaves_backend h \<Longrightarrow> (\<And>rl. LimiterHandle rl \<notin> set ms) \<Longrightarrow> leaves_backend (chain fl e ms h)"
  by (induction ms) (auto intro: lb_apply_mw)

lemma route_chain_no_limiter:
  "\<not> 0 <s HTTP_Limit fl \<Longrightarrow> rt \<in> set (routes (router fl api)) \<Longrightarrow> LimiterHandle rl \<notin> set (rchain rt)"
  by (auto simp: router_routes mount_routes_def catchAll_route_def ping_route_def
      api_route_of_def apiChain_def pingChain_def split: if_splits)

lemma lb_routeHTTP:
  assumes "\<not> 0 <s HTTP_Limit fl"
  shows "leaves_backend (routeHTTP fl e (router fl api))"
  unfolding leaves_backend_def
proof (intro allI)
  fix wd w r
  show "world_of (routeHTTP fl e (router fl api) wd w r) = wd"
  proof (cases "FindRoute (routes (router fl api)) (Method r) (route_path r)")
    case (Found rt)
    from FindRoute_Found [OF this] have "LimiterHandle rl \<notin> set (rchain rt)" for rl
      by (auto dest: route_chain_no_limiter [OF assms])
    from lbD [OF lb_chain [OF leaves_run_handler this]] Found
    show ?thesis by (simp add: routeHTTP_def)
  qed (simp_all add: routeHTTP_def)
qed

lemma serve_leaves_backend:
  assumes "\<not> 0 <s HTTP_Limit fl"
  shows "fst (serve fl e wd r) = wd"
  using lbD [OF lb_routeHTTP [OF assms], of e "registerAPI e" wd]
  by (simp add: serve_router split: result.splits) (metis world_of.simps)

lemma api_route_chain:
  "rt \<in> set (routes (router fl api)) \<Longrightarrow> rhandler rt = apiHandler h \<Longrightarrow> rchain rt = apiChain fl"
  by (auto simp: router_routes mount_routes_def catchAll_route_def ping_route_def
      api_route_of_def split: if_splits)

lemma serve_api_unlimited:
  assumes "\<not> 0 <s HTTP_Limit fl"
    and "FindRoute (routes (router fl (registerAPI e))) (Method r) (route_path (routed fl e r)) = Found rt"
    and "rhandler rt = apiHandler h" and "\<not> is_preflight r"
  shows "snd (serve fl e wd r) =
           Some (finish (case h (api_request fl e r) of
                           HPanic \<Rightarrow> WriteHeader 500 (api_writer fl e r)
                         | HResponse st hs b \<Rightarrow> Write b (WriteHeader st (set_headers hs (api_writer fl e r)))
                         | HPanicAfter st hs b \<Rightarrow>
                             WriteHeader 500
                               (Write b (WriteHeader st (set_headers hs (api_writer fl e r))))))"
proof -
  from FindRoute_Found [OF assms(2)] assms(3) have "rchain rt = apiChain fl"
    by (auto dest: api_route_chain)
  with assms(1) have ch: "rchain rt = [CorsHandler (corsOrigins fl), NoCache]"
    by (simp add: apiChain_def)
  from assms(4) have np: "\<not> (Method (routed fl e r) = OPTIONS
      \<and> hdr_Get (Header (routed fl e r)) ''Access-Control-Request-Method'' \<noteq> [])"
    by (simp add: is_preflight_def)
  show ?thesis
    using np
    by (cases "h (api_request fl e r)")
      (auto simp: serve_router routeHTTP_def assms(2,3) ch apply_result_def api_request_def
        api_writer_def)
qed

section \<open>C10: no limiter without a positive limit\<close>

text \<open>
  C10. When \<^verbatim>\<open>flags.HTTP.Limit\<close> is zero or negative, no route of the router has the rate
  limiter in its chain. Serving any request leaves the backend as it was (nothing is
  counted). A request that is routed to a route of \<^verbatim>\<open>registerAPI\<close> and is not a CORS
  preflight reaches that route's handler behind the CORS handler and \<^verbatim>\<open>NoCache\<close> only,
  and the response is the handler's own, written onto the header fields of
  \<^verbatim>\<open>dbDetailsMiddleware\<close>, the CORS handler and \<^verbatim>\<open>NoCache\<close>: no 429 and no rate-limit
  header comes from a limiter.
\<close>

theorem limiter_disabled:
  assumes "\<not> 0 <s HTTP_Limit fl"
  shows "(\<forall>rt \<in> set (routes (router fl (registerAPI e))). \<forall>rl. LimiterHandle rl \<notin> set (rchain rt))
       \<and> fst (serve fl e wd r) = wd
       \<and> (\<forall>rt h. FindRoute (routes (router fl (registerAPI e))) (Method r) (route_path (routed fl e r))
                    = Found rt
             \<longrightarrow> rhandler rt = apiHandler h \<longrightarrow> \<not> is_preflight r \<longrightarrow>
               rchain rt = [CorsHandler (corsOrigins fl), NoCache]
               \<and> snd (serve fl e wd r) =
                   Some (finish (case h (api_request fl e r) of
                                   HPanic \<Rightarrow> WriteHeader 500 (api_writer fl e r)
                                 | HResponse st hs b \<Rightarrow>
                                     Write b (WriteHeader st (set_headers hs (api_writer fl e r)))
                                 | HPanicAfter st hs b \<Rightarrow>
                                     WriteHeader 500
                                       (Write b (WriteHeader st (set_headers hs (api_writer fl e r)))))))"
proof -
  have chain_of: "rchain rt = [CorsHandler (corsOrigins fl), NoCache]"
    if "FindRoute (routes (router fl (registerAPI e))) (Method r) (route_path (routed fl e r)) = Found rt"
      and "rhandler rt = apiHandler h" for rt h
    using FindRoute_Found [OF that(1)] that(2) assms
    by (auto dest: api_route_chain simp: apiChain_def)
  show ?thesis
    using route_chain_no_limiter [OF assms] serve_leaves_backend [OF assms]
      serve_api_unlimited [OF assms] chain_of
    by blast
qed

text \<open>
  The demo configuration with the limit set to 0, in the world where the client has two
  requests counted: the API request is answered 200 by its handler, no
  \<^verbatim>\<open>X-Ratelimit-Limit\<close> is set, and the world is unchanged.
\<close>

theorem limiter_disabled_witness:
  "fst (serve (demo_config\<lparr>HTTP_Limit := 0\<rparr>) demo_env exhausted (demo_request GET ''/api/198.51.100.1''))
     = exhausted
   \<and> map_option status
       (snd (serve (demo_config\<lparr>HTTP_Limit := 0\<rparr>) demo_env exhausted (demo_request GET ''/api/198.51.100.1'')))
       = Some 200
   \<and> map_option (\<lambda>resp. map_of (rheader resp) ''X-Ratelimit-Limit'')
       (snd (serve (demo_config\<lparr>HTTP_Limit := 0\<rparr>) demo_env exhausted (demo_request GET ''/api/198.51.100.1'')))
       = Some None"
proof -
  let ?fl = "demo_config\<lparr>HTTP_Limit := 0\<rparr>"
  let ?r = "demo_request GET ''/api/198.51.100.1''"
  let ?rt = "\<lparr>rmethod = Some GET, rpattern = ''/api/{addr}'', rchain = apiChain ?fl,
              rhandler = apiHandler (\<lambda>r. HResponse 200 [] ''{}'')\<rparr>"
  have off: "\<not> 0 <s HTTP_Limit ?fl" by (simp add: word_sless_alt)
  have found: "FindRoute (routes (router ?fl (registerAPI demo_env))) (Method ?r)
                 (route_path (routed ?fl demo_env ?r)) = Found ?rt"
    by (simp add: route_eval demo_defs)
  have np: "\<not> is_preflight ?r" by (simp add: is_preflight_def demo_request_def)
  from limiter_disabled [OF off, of demo_env exhausted ?r] found np
  have "fst (serve ?fl demo_env exhausted ?r) = exhausted"
    and "snd (serve ?fl demo_env exhausted ?r) =
           Some (finish (Write ''{}'' (WriteHeader 200 (set_headers [] (api_writer ?fl demo_env ?r)))))"
    by auto
  then show ?thesis
    by (simp add: finish_def Write_def WriteHeader_def api_writer_def new_writer_def
        wheader_Header_Set map_of_hdr_Set noCacheHeaders_def demo_env_def)
qed

section \<open>C2: where the limiter's limit and window come from\<close>

lemma uint64_of_positive:
  assumes "0 <s (x :: 64 word)"
  shows "uint x = sint x"
proof -
  from assms have "0 < sint x" by (simp add: word_sless_alt)
  moreover have "sint x < 2 ^ 63" using sint_lt [of x] by simp
  ultimately have "take_bit 64 (sint x) = sint x"
    by (intro take_bit_int_eq_self) simp_all
  then show ?thesis by (simp add: uint_sint)
qed

text \<open>
  C2, as amended. For every configuration with a positive limit, each route of
  \<^verbatim>\<open>registerAPI\<close> is registered behind the CORS handler, \<^verbatim>\<open>NoCache\<close> and a limiter whose limit
  is the configured limit count (\<^verbatim>\<open>uint64\<close> of a positive \<^verbatim>\<open>int\<close> is that number) and
  whose window is 3600 seconds, whatever the configuration says about a window; the
  backend is made with the constant 10.
\<close>

theorem limiter_settings:
  assumes "0 <s HTTP_Limit fl"
  shows "(\<forall>a \<in> set api.
            api_route_of [CorsHandler (corsOrigins fl), NoCache, LimiterHandle (limiter fl)] a
              \<in> set (routes (router fl api)))
       \<and> uint (Limit (limiter fl)) = sint (HTTP_Limit fl)
       \<and> unat (Interval (limiter fl)) = 3600
       \<and> tick mapLimiter = 10"
  using assms uint64_of_positive [OF assms]
  by (simp add: router_routes apiChain_def limiter_def mapLimiter_def NewMapLimiter_def)

theorem limiter_settings_witness:
  "\<lparr>rmethod = Some GET, rpattern = ''/api/{addr}'',
     rchain = [CorsHandler [''*''], NoCache,
               LimiterHandle \<lparr>Limit = 2, Interval = 3600, KeyMaker = DefaultKeyMaker\<rparr>],
     rhandler = apiHandler (\<lambda>r. HResponse 200 [] ''{}'')\<rparr>
     \<in> set (routes (router demo_config (registerAPI demo_env)))
   \<and> uint (Limit (limiter demo_config)) = 2"
proof -
  have "0 <s HTTP_Limit demo_config" by (simp add: demo_config_def word_sless_alt)
  from limiter_settings [OF this, of "registerAPI demo_env"]
  show ?thesis
    by (simp add: demo_config_def demo_env_def api_route_of_def limiter_def corsOrigins_def)
qed

text \<open>
  C2 as stated fails for the window: the demo configuration asks for 60 seconds, and the
  limiter in front of the API routes has 3600.
\<close>

theorem window_counterexample:
  "LimiterHandle (limiter demo_config) \<in> set (apiChain demo_config)
   \<and> window_interval demo_config = 60
   \<and> unat (Interval (limiter demo_config)) = 3600"
  by (simp add: apiChain_def limiter_def demo_config_def word_sless_alt)

section \<open>The process: what ends it and what does not\<close>

lemma step_exit:
  assumes "step fl e ev p = Some p'" and "exit_code p' \<noteq> None"
  shows "ev = GoroutineResumes \<and> (\<exists>err. gor p = Got (Some err)) \<and> exit_code p' = Some 1"
  using assms
  by (cases ev)
    (auto simp: step.simps split: if_splits go_pc.splits option.splits prod.splits)

lemma serving_goes_on:
  assumes "step fl e ev p = Some p'" and "ev = Accept r \<or> ev = Respond"
  shows "exit_code p' = None \<and> gor p' = gor p \<and> main p' = main p"
  using assms
  by (auto simp: step.simps split: if_splits option.splits prod.splits)

lemma listener_error_exits:
  assumes "exit_code p = None" and "gor p = Binding \<or> gor p = Accepting"
  shows "run fl e [ServeFails msg, GoroutineResumes] p =
           Some (p\<lparr>gor := Got (Some (ListenError msg)),
                   stdout := stdout p @
                     [(if HTTP_TLS_Use fl then ''error in https server: ''
                       else ''error in http server: '') @ msg @ newline],
                   exit_code := Some 1\<rparr>)"
  using assms by (auto simp: step.simps)

section \<open>C3: the shutdown sequence\<close>

text \<open>
  C3 at a concrete run. The server is started and bound, a request for \<^verbatim>\<open>/about\<close> is in
  flight, and the shutdown signal arrives. \<^verbatim>\<open>initHTTP\<close> prints that it closes gracefully
  and calls \<^verbatim>\<open>srv.Close()\<close>: the connection is closed under the request, which can no
  longer be answered, while the backend's cycle is still running; the cycle is stopped
  afterwards, when \<^verbatim>\<open>initHTTP\<close> returns.
\<close>

theorem close_aborts_in_flight:
  "map_option (\<lambda>p. (conns p, running (backend (wld p)), stdout p))
     (run demo_config demo_env [Init, Bound, Accept (demo_request GET ''/about''), Signal]
        (new_process 0))
     = Some ([Aborted (demo_request GET ''/about'')], True,
             [''gracefully closing http connections'' @ newline])
   \<and> run demo_config demo_env [Init, Bound, Accept (demo_request GET ''/about''), Signal, Respond]
        (new_process 0) = None
   \<and> map_option (\<lambda>p. (conns p, running (backend (wld p))))
        (run demo_config demo_env [Init, Bound, Accept (demo_request GET ''/about''), Signal, Return]
           (new_process 0))
       = Some ([Aborted (demo_request GET ''/about'')], False)"
  by (simp add: step.simps new_process_def Start_def Stop_def mapLimiter_def NewMapLimiter_def)

section \<open>C5: what terminates the process\<close>

text \<open>
  C5 at a concrete run. The server is started and bound, and the shutdown signal arrives;
  nothing failed. \<^verbatim>\<open>srv.Close()\<close> makes \<^verbatim>\<open>ListenAndServe\<close> return \<^verbatim>\<open>http.ErrServerClosed\<close>,
  which is not nil: when the listener goroutine runs before the process has ended, it
  prints the error and calls \<^verbatim>\<open>os.Exit(1)\<close>, and the deferred stop of the backend has not
  run.
\<close>

theorem shutdown_exits_with_error:
  "map_option (\<lambda>p. (exit_code p, gor p, running (backend (wld p)), stdout p))
     (run demo_config demo_env [Init, Bound, Signal, GoroutineResumes] (new_process 0))
     = Some (Some 1, Got (Some ErrServerClosed), True,
             [''gracefully closing http connections'' @ newline,
              ''error in http server: http: Server closed'' @ newline])"
  by (simp add: step.simps new_process_def Start_def mapLimiter_def NewMapLimiter_def
      demo_config_def)

end
